theory Spec2Isabelle
  imports Complex_Main "HOL-Library.Multiset" "HOL-Library.Sublist"
begin

section \<open>JavaScript strings and the string operations the pipeline uses\<close>

text \<open>
  A JavaScript string is a sequence of UTF-16 code units, and \<open>.length\<close> counts code
  units. A code unit is a natural number here; \<open>js\<close> turns an ASCII literal into its
  code units. Case conversion is modelled on the ASCII letters; every other code unit is
  left as it is.
\<close>

type_synonym jsstring = "nat list"

definition js :: "string \<Rightarrow> jsstring" where
  "js s = map of_char s"

text \<open>The class \<open>\s\<close> of a regular expression, which is also what \<open>trim\<close> removes.\<close>

definition isSpace :: "nat \<Rightarrow> bool" where
  "isSpace c =
     (c \<in> set [9, 10, 11, 12, 13, 32, 160, 5760, 8232, 8233, 8239, 8287, 12288, 65279]
      \<or> (8192 \<le> c \<and> c \<le> 8202))"

definition isUpper :: "nat \<Rightarrow> bool" where
  "isUpper c = (65 \<le> c \<and> c \<le> 90)"

definition isLower :: "nat \<Rightarrow> bool" where
  "isLower c = (97 \<le> c \<and> c \<le> 122)"

definition isDigit :: "nat \<Rightarrow> bool" where
  "isDigit c = (48 \<le> c \<and> c \<le> 57)"

definition isLetter :: "nat \<Rightarrow> bool" where
  "isLetter c = (isUpper c \<or> isLower c)"

text \<open>The class \<open>\w\<close>: letters, digits and the underscore.\<close>

definition isWordChar :: "nat \<Rightarrow> bool" where
  "isWordChar c = (isLetter c \<or> isDigit c \<or> c = 95)"

definition toLowerChar :: "nat \<Rightarrow> nat" where
  "toLowerChar c = (if isUpper c then c + 32 else c)"

definition toUpperChar :: "nat \<Rightarrow> nat" where
  "toUpperChar c = (if isLower c then c - 32 else c)"

definition toLowerCase :: "jsstring \<Rightarrow> jsstring" where
  "toLowerCase s = map toLowerChar s"

definition trim :: "jsstring \<Rightarrow> jsstring" where
  "trim s = rev (dropWhile isSpace (rev (dropWhile isSpace s)))"

definition startsWith :: "jsstring \<Rightarrow> jsstring \<Rightarrow> bool" where
  "startsWith s p = (take (length p) s = p)"

definition endsWith :: "jsstring \<Rightarrow> jsstring \<Rightarrow> bool" where
  "endsWith s p = (length p \<le> length s \<and> drop (length s - length p) s = p)"

text \<open>\<open>s.includes(p)\<close>: \<open>p\<close> occurs in \<open>s\<close> as a substring.\<close>

fun includesStr :: "jsstring \<Rightarrow> jsstring \<Rightarrow> bool" where
  "includesStr [] p = (p = [])"
| "includesStr (c # cs) p = (startsWith (c # cs) p \<or> includesStr cs p)"

text \<open>
  \<open>s.split(/\s+/)\<close>: the pieces between maximal runs of white space. The flag says
  that the previous code unit was white space, so that a run separates only once. A
  leading or trailing run leaves an empty piece, and the empty string gives one empty
  piece.
\<close>

fun splitWsFrom :: "bool \<Rightarrow> jsstring \<Rightarrow> jsstring list" where
  "splitWsFrom sp [] = [[]]"
| "splitWsFrom sp (c # cs) =
     (if isSpace c then (if sp then splitWsFrom True cs else [] # splitWsFrom True cs)
      else (case splitWsFrom False cs of
              w # ws \<Rightarrow> (c # w) # ws
            | [] \<Rightarrow> [[c]]))"

definition splitWs :: "jsstring \<Rightarrow> jsstring list" where
  "splitWs s = splitWsFrom False s"

text \<open>\<open>s.replace(/\s+/g, ' ')\<close>: every maximal run of white space becomes one space.\<close>

fun collapseWsFrom :: "bool \<Rightarrow> jsstring \<Rightarrow> jsstring" where
  "collapseWsFrom sp [] = []"
| "collapseWsFrom sp (c # cs) =
     (if isSpace c then (if sp then collapseWsFrom True cs else 32 # collapseWsFrom True cs)
      else c # collapseWsFrom False cs)"

definition collapseWs :: "jsstring \<Rightarrow> jsstring" where
  "collapseWs s = collapseWsFrom False s"

text \<open>
  \<open>s.replace(/p/g, r)\<close> for a literal, non-empty pattern \<open>p\<close>: the occurrences are
  replaced from left to right, and the scan goes on after each replaced occurrence.
\<close>

function replaceAll :: "jsstring \<Rightarrow> jsstring \<Rightarrow> jsstring \<Rightarrow> jsstring" where
  "replaceAll p r [] = []"
| "replaceAll p r (c # cs) =
     (if p \<noteq> [] \<and> startsWith (c # cs) p
      then r @ replaceAll p r (drop (length p) (c # cs))
      else c # replaceAll p r cs)"
  by pat_completeness auto
termination
  by (relation "measure (\<lambda>(p, r, s). length s)") auto

text \<open>\<open>parts.join(' ')\<close>.\<close>

fun joinSp :: "jsstring list \<Rightarrow> jsstring" where
  "joinSp [] = []"
| "joinSp [w] = w"
| "joinSp (w # v # ws) = w @ 32 # joinSp (v # ws)"

text \<open>
  \<open>new Set(xs)\<close>: the distinct elements of \<open>xs\<close> in the order of their first
  occurrence, which is the order in which the set is iterated.
\<close>

definition setAdd :: "'a list \<Rightarrow> 'a \<Rightarrow> 'a list" where
  "setAdd acc x = (if x \<in> set acc then acc else acc @ [x])"

definition newSet :: "'a list \<Rightarrow> 'a list" where
  "newSet xs = foldl setAdd [] xs"

text \<open>A value is truthy when it is present and not the empty string.\<close>

definition truthy :: "jsstring option \<Rightarrow> bool" where
  "truthy v = (case v of None \<Rightarrow> False | Some s \<Rightarrow> s \<noteq> [])"

text \<open>\<open>v || ""\<close>\<close>

definition orEmpty :: "jsstring option \<Rightarrow> jsstring" where
  "orEmpty v = (case v of None \<Rightarrow> [] | Some s \<Rightarrow> s)"

text \<open>\<open>a || b\<close> on optional strings.\<close>

definition orElse :: "jsstring option \<Rightarrow> jsstring option \<Rightarrow> jsstring option" where
  "orElse a b = (if truthy a then a else b)"

section \<open>Keyword extraction (src/lib/openai.ts)\<close>

definition kwStopwords :: "jsstring list" where
  "kwStopwords = map js [''and'', ''the'', ''for'', ''with'', ''that'', ''this'', ''your'',
     ''have'', ''from'', ''are'', ''does'']"

text \<open>
  The characters of the class \<open>[,.?;:'"!()]\<close>: comma, full stop, question mark,
  semicolon, colon, apostrophe, double quote, exclamation mark and the two parentheses.
\<close>

definition kwPunct :: "nat list" where
  "kwPunct = [44, 46, 63, 59, 58, 39, 34, 33, 40, 41]"

definition stripKwPunct :: "jsstring \<Rightarrow> jsstring" where
  "stripKwPunct w = filter (\<lambda>c. c \<notin> set kwPunct) w"

definition keepWord :: "jsstring \<Rightarrow> bool" where
  "keepWord w = (length w > 3 \<and> toLowerCase w \<notin> set kwStopwords)"

definition extractKeywords :: "jsstring \<Rightarrow> jsstring list" where
  "extractKeywords text' =
     filter (\<lambda>w. w \<noteq> []) (map stripKwPunct (filter keepWord (splitWs text')))"

section \<open>The merge-result cache (src/lib/openai.ts)\<close>

text \<open>
  \<open>questionCache\<close> is a \<open>Map\<close>: its entries are kept in insertion order, \<open>set\<close> on a
  key that is present replaces the value in place, and \<open>keys().next().value\<close> is the
  key inserted first.
\<close>

type_synonym ('k, 'v) jsmap = "('k \<times> 'v) list"

fun mapSet :: "('k, 'v) jsmap \<Rightarrow> 'k \<Rightarrow> 'v \<Rightarrow> ('k, 'v) jsmap" where
  "mapSet [] k v = [(k, v)]"
| "mapSet ((k', v') # m) k v =
     (if k' = k then (k, v) # m else (k', v') # mapSet m k v)"

definition mapHas :: "('k, 'v) jsmap \<Rightarrow> 'k \<Rightarrow> bool" where
  "mapHas m k = (k \<in> set (map fst m))"

definition mapGet :: "('k, 'v) jsmap \<Rightarrow> 'k \<Rightarrow> 'v option" where
  "mapGet m k = map_of m k"

definition mapDelete :: "('k, 'v) jsmap \<Rightarrow> 'k \<Rightarrow> ('k, 'v) jsmap" where
  "mapDelete m k = filter (\<lambda>e. fst e \<noteq> k) m"

text \<open>Lines 130 to 137 of \<open>mergeQuestionsWithAI\<close>: store, then limit the size.\<close>

definition cacheStore :: "('k, 'v) jsmap \<Rightarrow> 'k \<Rightarrow> 'v \<Rightarrow> ('k, 'v) jsmap" where
  "cacheStore cache cacheKey mergedQuestion =
     (let c1 = mapSet cache cacheKey mergedQuestion
      in if length c1 > 100
         then (case c1 of [] \<Rightarrow> c1 | (firstKey, _) # _ \<Rightarrow> mapDelete c1 firstKey)
         else c1)"

text \<open>The cache of a process: empty at start, then one store after the other.\<close>

definition cacheAfter :: "('k \<times> 'v) list \<Rightarrow> ('k, 'v) jsmap" where
  "cacheAfter stores = foldl (\<lambda>c (k, v). cacheStore c k v) [] stores"

section \<open>The similarity scorer (calculateQuestionSimilarity)\<close>

text \<open>
  A question as it comes from the framework document. Every field may be absent. Scores
  are JavaScript numbers; they are modelled as exact rationals.
\<close>

record raw_question =
  question :: "jsstring option"
  category :: "jsstring option"
  ref :: "jsstring option"
  oid :: "jsstring option"

definition stopWords :: "jsstring list" where
  "stopWords = map js [
     ''what'', ''how'', ''when'', ''where'', ''which'', ''who'', ''why'', ''does'', ''do'',
     ''are'', ''is'', ''the'', ''a'', ''an'', ''in'', ''on'', ''at'', ''to'', ''for'',
     ''with'', ''by'', ''of'', ''and'', ''or'', ''but'', ''if'', ''then'', ''else'',
     ''when'', ''your'', ''their'', ''our'', ''its'', ''this'', ''that'', ''these'',
     ''those'', ''have'', ''has'', ''had'', ''can'', ''could'', ''will'', ''would'',
     ''should'', ''shall'', ''may'', ''might'', ''must'', ''need'', ''needs'',
     ''required'', ''requires'']"

text \<open>
  The characters of the class \<open>[.,\/#!$%\^&\*;:{}=\-_`~()]\<close>, in the order of the
  class: full stop, comma, slash, hash, exclamation mark, dollar, percent, caret,
  ampersand, asterisk, semicolon, colon, the two braces, equals, hyphen, underscore,
  backquote, tilde and the two parentheses. The question mark is not among them.
\<close>

definition scorePunct :: "nat list" where
  "scorePunct = [46, 44, 47, 35, 33, 36, 37, 94, 38, 42, 59, 58, 123, 125, 61, 45, 95,
     96, 126, 40, 41]"

definition stripScorePunct :: "jsstring \<Rightarrow> jsstring" where
  "stripScorePunct s = filter (\<lambda>c. c \<notin> set scorePunct) s"

definition questionWords :: "jsstring \<Rightarrow> jsstring list" where
  "questionWords qText =
     filter (\<lambda>w. length w > 3 \<and> w \<notin> set stopWords) (splitWs (stripScorePunct qText))"

definition semanticGroups :: "(string \<times> jsstring list) list" where
  "semanticGroups = [
     (''governance'', map js [''board'', ''committee'', ''director'', ''oversight'',
        ''supervision'', ''monitoring'', ''control'', ''governance'', ''management'',
        ''leadership'']),
     (''risk'', map js [''risk'', ''compliance'', ''audit'', ''review'', ''assessment'',
        ''evaluation'', ''check'', ''verify'', ''validate'', ''assure'', ''assurance'']),
     (''environmental'', map js [''environmental'', ''environment'', ''climate'',
        ''emission'', ''carbon'', ''pollution'', ''waste'', ''resource'', ''energy'',
        ''water'']),
     (''social'', map js [''social'', ''community'', ''stakeholder'', ''employee'',
        ''labor'', ''human'', ''rights'', ''diversity'', ''inclusion'', ''safety'',
        ''health'']),
     (''process'', map js [''process'', ''procedure'', ''system'', ''framework'',
        ''standard'', ''guideline'', ''policy'', ''practice'', ''implementation'',
        ''execution'']),
     (''performance'', map js [''performance'', ''measure'', ''metric'', ''indicator'',
        ''target'', ''goal'', ''objective'', ''outcome'', ''result'', ''impact'',
        ''effect'']),
     (''action'', map js [''address'', ''implement'', ''take'', ''ensure'', ''establish'',
        ''develop'', ''create'', ''maintain'', ''improve'', ''enhance'', ''strengthen'']),
     (''deficiency'', map js [''deficiency'', ''issue'', ''problem'', ''gap'', ''weakness'',
        ''shortcoming'', ''failure'', ''noncompliance'', ''violation'', ''breach'']),
     (''reporting'', map js [''report'', ''disclose'', ''disclosure'', ''transparency'',
        ''communication'', ''inform'', ''document'', ''record'', ''track'', ''monitor''])]"

text \<open>The inner loop of the first pass: the first group whose terms include the word.\<close>

fun findGroup :: "(string \<times> jsstring list) list \<Rightarrow> jsstring \<Rightarrow> string option" where
  "findGroup [] word = None"
| "findGroup ((grp, terms) # gs) word =
     (if word \<in> set terms then Some grp else findGroup gs word)"

text \<open>
  The state of the two passes is \<open>wordScore\<close> and the set \<open>semanticMatches\<close>, of which
  only membership is ever asked.
\<close>

definition directMatchStep :: "rat \<times> string set \<Rightarrow> jsstring \<Rightarrow> rat \<times> string set" where
  "directMatchStep st word =
     (case findGroup semanticGroups word of
        Some grp \<Rightarrow> (fst st + 2, insert grp (snd st))
      | None \<Rightarrow> (fst st + 1, snd st))"

definition hasGroup :: "jsstring list \<Rightarrow> jsstring list \<Rightarrow> bool" where
  "hasGroup terms qWords = list_ex (\<lambda>term'. term' \<in> set qWords) terms"

definition groupMatchStep ::
  "jsstring list \<Rightarrow> jsstring list \<Rightarrow> rat \<times> string set \<Rightarrow> string \<times> jsstring list
   \<Rightarrow> rat \<times> string set" where
  "groupMatchStep q1Words q2Words st g =
     (if hasGroup (snd g) q1Words \<and> hasGroup (snd g) q2Words \<and> fst g \<notin> snd st
      then (fst st + 3 / 2, insert (fst g) (snd st))
      else st)"

definition wordScoreOf :: "jsstring list \<Rightarrow> jsstring list \<Rightarrow> rat" where
  "wordScoreOf q1Words q2Words =
     (let q1WordSet = newSet q1Words;
          q2WordSet = newSet q2Words;
          matchingWords = filter (\<lambda>w. w \<in> set q2WordSet) q1WordSet;
          firstPass = foldl directMatchStep (0, {}) matchingWords;
          secondPass = foldl (groupMatchStep q1Words q2Words) firstPass semanticGroups
      in fst secondPass)"

definition questionPatterns :: "jsstring list list" where
  "questionPatterns = map (map js) [
     [''how'', ''does'', ''ensure''],
     [''what'', ''measures'', ''taken''],
     [''how'', ''do'', ''you''],
     [''what'', ''processes'', ''place''],
     [''how'', ''are'', ''you''],
     [''what'', ''steps'', ''taken''],
     [''how'', ''does'', ''your''],
     [''what'', ''mechanisms'', ''place'']]"

definition hasPattern :: "jsstring \<Rightarrow> jsstring list \<Rightarrow> bool" where
  "hasPattern qText pattern = list_all (\<lambda>word. includesStr qText word) pattern"

text \<open>The pattern loop: one point at the first pattern that both texts have, then stop.\<close>

fun patternBonus :: "jsstring list list \<Rightarrow> jsstring \<Rightarrow> jsstring \<Rightarrow> rat" where
  "patternBonus [] q1Text q2Text = 0"
| "patternBonus (pattern # ps) q1Text q2Text =
     (if hasPattern q1Text pattern \<and> hasPattern q2Text pattern then 1
      else patternBonus ps q1Text q2Text)"

definition structureOf :: "jsstring \<Rightarrow> jsstring" where
  "structureOf qText = toLowerCase (joinSp (take 3 (splitWs qText)))"

definition categoryBonus :: "raw_question \<Rightarrow> raw_question \<Rightarrow> rat" where
  "categoryBonus q1 q2 =
     (if truthy (category q1) \<and> truthy (category q2) \<and>
         toLowerCase (orEmpty (category q1)) = toLowerCase (orEmpty (category q2))
      then 8 else 0)"

text \<open>The score before the threshold: the sum of the four signals.\<close>

definition similarityScoreOf :: "raw_question \<Rightarrow> raw_question \<Rightarrow> rat" where
  "similarityScoreOf q1 q2 =
     (let q1Text = toLowerCase (orEmpty (question q1));
          q2Text = toLowerCase (orEmpty (question q2));
          q1Words = questionWords q1Text;
          q2Words = questionWords q2Text;
          wordScore = wordScoreOf q1Words q2Words;
          totalUniqueWords = length (newSet q1Words) + length (newSet q2Words)
      in categoryBonus q1 q2
         + (if totalUniqueWords > 0 then wordScore / of_nat totalUniqueWords * 20 else 0)
         + (if structureOf q1Text = structureOf q2Text then 2 else 0)
         + patternBonus questionPatterns q1Text q2Text)"

definition MIN_SIMILARITY_THRESHOLD :: rat where
  "MIN_SIMILARITY_THRESHOLD = 10"

definition calculateQuestionSimilarity :: "raw_question \<Rightarrow> raw_question \<Rightarrow> rat" where
  "calculateQuestionSimilarity q1 q2 =
     (let similarityScore = similarityScoreOf q1 q2
      in if similarityScore \<ge> MIN_SIMILARITY_THRESHOLD then similarityScore else 0)"

text \<open>
  Two quantities that depend only on the set of matching words: the weight of a word
  in the first pass, and the groups that the first pass marks.
\<close>

definition wordWeight :: "jsstring \<Rightarrow> rat" where
  "wordWeight w = (case findGroup semanticGroups w of Some g \<Rightarrow> 2 | None \<Rightarrow> 1)"

definition groupsOf :: "jsstring set \<Rightarrow> string set" where
  "groupsOf ws = {g. \<exists>w \<in> ws. findGroup semanticGroups w = Some g}"

section \<open>Loading the framework data\<close>

text \<open>
  One framework of the JSON document, and what one \<open>fetch\<close> of the document can come
  to: the request is rejected, the response is not OK (with its status), the body is
  not JSON, or the document arrives.
\<close>

record framework_doc =
  name :: jsstring
  description :: "jsstring option"
  questions :: "raw_question list option"

datatype fetch_result =
    FetchRejected
  | ResponseNotOk nat
  | JsonRejected
  | Document "framework_doc list"

text \<open>
  The errors thrown in the module: \<open>DataLoadError status\<close> is the error
  "Failed to load frameworks: status" thrown inside the loaders, \<open>RuntimeError\<close> the
  error of a rejected request or body, and \<open>NoQuestionsGenerated\<close> the error
  "Failed to generate any questions. Please try again." thrown at the end of
  \<open>generateQuestionsFromFrameworks\<close>.
\<close>

datatype error =
    DataLoadError nat
  | RuntimeError
  | NoQuestionsGenerated

text \<open>The part of both loaders inside \<open>try\<close>, up to \<open>response.json()\<close>.\<close>

definition loadDocument :: "fetch_result \<Rightarrow> error + framework_doc list" where
  "loadDocument r =
     (case r of
        FetchRejected \<Rightarrow> Inl RuntimeError
      | ResponseNotOk status \<Rightarrow> Inl (DataLoadError status)
      | JsonRejected \<Rightarrow> Inl RuntimeError
      | Document data \<Rightarrow> Inr data)"

text \<open>Both loaders catch every error of their body and return the empty value.\<close>

definition getQuestionsForFramework :: "fetch_result \<Rightarrow> jsstring \<Rightarrow> raw_question list" where
  "getQuestionsForFramework r frameworkName =
     (case loadDocument r of
        Inl err \<Rightarrow> []
      | Inr data \<Rightarrow>
          (case find (\<lambda>item. name item = frameworkName) data of
             None \<Rightarrow> []
           | Some framework \<Rightarrow>
               (case questions framework of None \<Rightarrow> [] | Some qs \<Rightarrow> qs)))"

definition getFrameworkDescription :: "fetch_result \<Rightarrow> jsstring \<Rightarrow> jsstring" where
  "getFrameworkDescription r frameworkName =
     (case loadDocument r of
        Inl err \<Rightarrow> []
      | Inr data \<Rightarrow>
          (case find (\<lambda>item. name item = frameworkName) data of
             None \<Rightarrow> []
           | Some framework \<Rightarrow> orEmpty (description framework)))"

section \<open>The thematic connection of two frameworks\<close>

definition knownConnections :: "(jsstring \<times> (jsstring \<times> jsstring) list) list" where
  "knownConnections = [
     (js ''TCFD'', [
        (js ''GRI Standards'', js ''climate transparency and environmental reporting''),
        (js ''Science Based Targets'', js ''science-based climate action and risk disclosure''),
        (js ''EU CSRD'', js ''climate-related financial and sustainability disclosures''),
        (js ''SASB'', js ''industry-specific climate risk assessment and disclosure'')]),
     (js ''GRI Standards'', [
        (js ''SASB'', js ''comprehensive sustainability reporting and material ESG disclosure''),
        (js ''UN Global Compact'', js ''global sustainability principles and comprehensive reporting''),
        (js ''B Corp Assessment'', js ''transparency in sustainability performance and stakeholder impact''),
        (js ''EU CSRD'', js ''comprehensive sustainability reporting across global frameworks'')]),
     (js ''Integrated Reporting'', [
        (js ''IIRC Framework'', js ''holistic value creation and integrated thinking''),
        (js ''SASB'', js ''material financial and non-financial information integration''),
        (js ''GRI Standards'', js ''comprehensive and strategic sustainability disclosure'')]),
     (js ''IFC Listed Companies'', [
        (js ''SASB'', js ''robust governance and material risk disclosure''),
        (js ''UN Global Compact'', js ''governance structures and ethical business principles'')])]"

definition knownConnection :: "jsstring \<Rightarrow> jsstring \<Rightarrow> jsstring option" where
  "knownConnection a b =
     (case map_of knownConnections a of None \<Rightarrow> None | Some row \<Rightarrow> map_of row b)"

definition themeKeywords :: "jsstring list" where
  "themeKeywords = map js [''governance'', ''climate'', ''environmental'', ''social'',
     ''transparency'', ''sustainability'', ''disclosure'', ''reporting'', ''risk'',
     ''stakeholder'', ''value'', ''strategy'', ''performance'', ''impact'', ''ethical'']"

definition defaultThemes :: "(jsstring \<times> jsstring) list" where
  "defaultThemes = [
     (js ''TCFD-GRI'', js ''climate disclosure and sustainability reporting''),
     (js ''SASB-GRI'', js ''material sustainability reporting''),
     (js ''UNGC-ISO26000'', js ''social responsibility principles''),
     (js ''CSRD-IIRC'', js ''integrated sustainability disclosure''),
     (js ''SBT-TCFD'', js ''science-based climate action''),
     (js ''BCORP-SDG'', js ''impact measurement and sustainable development''),
     (js ''ISO26000-UNGC'', js ''ethical business practices and social responsibility'')]"

definition sharedKeyword :: "jsstring \<Rightarrow> jsstring \<Rightarrow> jsstring option" where
  "sharedKeyword description1 description2 =
     (if description1 \<noteq> [] \<and> description2 \<noteq> []
      then find (\<lambda>keyword. includesStr (toLowerCase description1) keyword \<and>
                           includesStr (toLowerCase description2) keyword) themeKeywords
      else None)"

definition findThematicConnection ::
  "jsstring \<Rightarrow> jsstring \<Rightarrow> jsstring \<Rightarrow> jsstring \<Rightarrow> jsstring" where
  "findThematicConnection framework1 framework2 description1 description2 =
     (case knownConnection framework1 framework2 of
        Some theme \<Rightarrow> theme
      | None \<Rightarrow>
     (case knownConnection framework2 framework1 of
        Some theme \<Rightarrow> theme
      | None \<Rightarrow>
     (case sharedKeyword description1 description2 of
        Some keyword \<Rightarrow> keyword
      | None \<Rightarrow>
     (case map_of defaultThemes (framework1 @ js ''-'' @ framework2) of
        Some theme \<Rightarrow> theme
      | None \<Rightarrow>
     (case map_of defaultThemes (framework2 @ js ''-'' @ framework1) of
        Some theme \<Rightarrow> theme
      | None \<Rightarrow> js ''sustainability compliance and strategic performance'')))))"

section \<open>Merging one pair of questions (createMergedQuestion)\<close>

record original_question =
  otext :: jsstring
  oframework :: jsstring
  ocategory :: "jsstring option"
  oref :: "jsstring option"

text \<open>
  The merged question. \<open>qid\<close>, \<open>qtext\<close>, \<open>qcategory\<close> and \<open>qref\<close> are the fields
  \<open>id\<close>, \<open>text\<close>, \<open>category\<close> and \<open>ref\<close> of the interface \<open>Question\<close>.
\<close>

record merged_question =
  qid :: jsstring
  qtext :: jsstring
  frameworks :: "jsstring list"
  originalQuestions :: "original_question list"
  emoji :: jsstring
  qcategory :: "jsstring option"
  qref :: jsstring
  timestamp :: jsstring
  generatedWithAI :: bool

text \<open>
  The twelve glyphs, as the code units of the source text. The eighth and the eleventh
  (shield, scales) carry the variation selector U+FE0F after their code point; the
  code point of the fifth and of the eleventh is one code unit, the others are
  surrogate pairs.
\<close>

definition emojis :: "jsstring list" where
  "emojis = [
     [55356, 57119], [55357, 56580], [55356, 57137], [55356, 57101], [9889],
     [55357, 56508], [55357, 56589], [55357, 57057, 65039], [55358, 56605],
     [55357, 56522], [9878, 65039], [55356, 57104]]"

text \<open>
  The characters that the clean-up keeps beside \<open>\w\<close> and \<open>\s\<close>: question mark, full
  stop, comma, semicolon, colon, hyphen, apostrophe and slash.
\<close>

definition basicPunct :: "nat list" where
  "basicPunct = [63, 46, 44, 59, 58, 45, 39, 47]"

definition firstLine :: "jsstring \<Rightarrow> jsstring" where
  "firstLine s = takeWhile (\<lambda>c. c \<noteq> 10) s"

definition keepBasic :: "jsstring \<Rightarrow> jsstring" where
  "keepBasic s = filter (\<lambda>c. isWordChar c \<or> isSpace c \<or> c \<in> set basicPunct) s"

text \<open>The three literal replacements that end both clean-ups.\<close>

definition fixLiterals :: "jsstring \<Rightarrow> jsstring" where
  "fixLiterals s =
     replaceAll (js ''and/ or'') (js ''and/or'')
       (replaceAll (js ''best practicesframework'') (js ''best practices/framework'')
         (replaceAll (js ''DIFFERENT_CONTEXT?'') [] s))"

definition cleanInput :: "jsstring \<Rightarrow> jsstring" where
  "cleanInput text' = trim (fixLiterals (collapseWs (keepBasic (firstLine text'))))"

definition normalizeQuestion :: "jsstring \<Rightarrow> jsstring" where
  "normalizeQuestion text' = trim (collapseWs (stripScorePunct (toLowerCase text')))"

text \<open>
  The clean-up of the text that came back from the merge: after the same first three
  steps, everything before the first letter goes, and a trailing run of characters
  outside letters, digits, white space and the basic punctuation goes.
\<close>

definition stripLeadingNonLetters :: "jsstring \<Rightarrow> jsstring" where
  "stripLeadingNonLetters s = dropWhile (\<lambda>c. \<not> isLetter c) s"

definition stripTrailingSpecial :: "jsstring \<Rightarrow> jsstring" where
  "stripTrailingSpecial s =
     rev (dropWhile (\<lambda>c. \<not> (isLetter c \<or> isDigit c \<or> isSpace c \<or> c \<in> set basicPunct))
            (rev s))"

definition cleanOutput :: "jsstring \<Rightarrow> jsstring" where
  "cleanOutput t =
     trim (fixLiterals (stripTrailingSpecial (stripLeadingNonLetters
       (collapseWs (keepBasic (firstLine t))))))"

definition ensureEnding :: "jsstring \<Rightarrow> jsstring" where
  "ensureEnding t = (if \<not> endsWith t (js ''?'') \<and> \<not> endsWith t (js ''.'') then t @ js ''?'' else t)"

text \<open>
  \<open>charAt(0).toUpperCase() + slice(1)\<close>. The text is ASCII at this point, so the upper
  case of its first character is one code unit.
\<close>

definition capitalize :: "jsstring \<Rightarrow> jsstring" where
  "capitalize t = (case t of [] \<Rightarrow> [] | c # cs \<Rightarrow> toUpperChar c # cs)"

text \<open>
  The format test is a regular expression with the flag \<open>u\<close>: it reads one code point
  (a surrogate pair is one code point), which must lie in one of four ranges, then a
  space, then a capital letter.
\<close>

definition firstCodePoint :: "jsstring \<Rightarrow> (nat \<times> jsstring) option" where
  "firstCodePoint s =
     (case s of
        [] \<Rightarrow> None
      | h # rest \<Rightarrow>
          (if 55296 \<le> h \<and> h \<le> 56319
           then (case rest of
                   [] \<Rightarrow> Some (h, rest)
                 | l # rest' \<Rightarrow>
                     (if 56320 \<le> l \<and> l \<le> 57343
                      then Some (65536 + (h - 55296) * 1024 + (l - 56320), rest')
                      else Some (h, rest)))
           else Some (h, rest)))"

definition inEmojiRange :: "nat \<Rightarrow> bool" where
  "inEmojiRange cp =
     ((127744 \<le> cp \<and> cp \<le> 128767) \<or> (129280 \<le> cp \<and> cp \<le> 129535) \<or>
      (9728 \<le> cp \<and> cp \<le> 9983) \<or> (9984 \<le> cp \<and> cp \<le> 10175))"

definition formatOk :: "jsstring \<Rightarrow> bool" where
  "formatOk t =
     (case firstCodePoint t of
        None \<Rightarrow> False
      | Some (cp, rest) \<Rightarrow>
          inEmojiRange cp \<and>
          (case rest of
             sp # u # _ \<Rightarrow> sp = 32 \<and> isUpper u
           | _ \<Rightarrow> False))"

text \<open>The decimal digits of a number, as a template literal prints it.\<close>

function showNat :: "nat \<Rightarrow> jsstring" where
  "showNat n = (if n < 10 then [48 + n] else showNat (n div 10) @ [48 + n mod 10])"
  by pat_completeness auto
termination
  by (relation "measure (\<lambda>n. n)") auto

declare showNat.simps [simp del]

text \<open>
  The call of \<open>mergeQuestionsWithAI\<close> and what racing it against the timer of five
  seconds comes to: the timer wins and the race is rejected, or the call resolves with
  a text. The call catches its own errors, so it never rejects by itself. The text is
  any text: the cached one, the validated answer of the model or of the second prompt,
  or one of the two questions when everything else failed.
\<close>

record merge_request =
  reqFramework1 :: jsstring
  reqFramework2 :: jsstring
  reqQuestion1 :: jsstring
  reqQuestion2 :: jsstring
  reqThematicConnection :: jsstring
  reqSimilarityScore :: rat

datatype race_outcome = Timeout | Resolved jsstring

text \<open>
  What one call of \<open>createMergedQuestion\<close> takes from outside: the index that
  \<open>Math.floor(Math.random() * 12)\<close> gives (any number is reduced to the range 0 to 11),
  the time stamp, and the outcome of the race for the request made.
\<close>

record call_world =
  randomIndex :: nat
  isoNow :: jsstring
  race :: "merge_request \<Rightarrow> race_outcome"

definition originalsOf ::
  "jsstring \<Rightarrow> jsstring \<Rightarrow> raw_question \<Rightarrow> raw_question \<Rightarrow> jsstring \<Rightarrow> jsstring
   \<Rightarrow> original_question list" where
  "originalsOf framework1 framework2 question1 question2 text1 text2 =
     [\<lparr>otext = text1, oframework = framework1, ocategory = category question1,
        oref = orElse (ref question1) (oid question1)\<rparr>,
      \<lparr>otext = text2, oframework = framework2, ocategory = category question2,
        oref = orElse (ref question2) (oid question2)\<rparr>]"

definition questionOf ::
  "jsstring \<Rightarrow> jsstring \<Rightarrow> raw_question \<Rightarrow> raw_question \<Rightarrow> nat \<Rightarrow> jsstring \<Rightarrow> jsstring
   \<Rightarrow> jsstring \<Rightarrow> jsstring \<Rightarrow> jsstring \<Rightarrow> bool \<Rightarrow> merged_question" where
  "questionOf framework1 framework2 question1 question2 index text1 text2 finalText
     defaultEmoji now ai =
     \<lparr>qid = js ''q'' @ showNat (index + 1),
      qtext = finalText,
      frameworks = [framework1, framework2],
      originalQuestions = originalsOf framework1 framework2 question1 question2 text1 text2,
      emoji = defaultEmoji,
      qcategory = orElse (category question1) (category question2),
      qref = framework1 @ js ''-'' @ framework2 @ js ''-'' @ showNat index,
      timestamp = now,
      generatedWithAI = ai\<rparr>"

text \<open>The text of the merge path, from the resolved text to the checked result.\<close>

definition finishMerged :: "jsstring \<Rightarrow> jsstring \<Rightarrow> jsstring option" where
  "finishMerged defaultEmoji resolved =
     (let finalText = defaultEmoji @ js '' '' @ capitalize (ensureEnding (cleanOutput resolved))
      in if length finalText < 10 \<or> length finalText > 500 then None
         else if \<not> formatOk finalText then None
         else Some finalText)"

text \<open>
  \<open>createMergedQuestion\<close> returns the question or null, and the model returns with it
  the list of the calls of \<open>mergeQuestionsWithAI\<close> that it made.
\<close>

definition createMergedQuestion ::
  "call_world \<Rightarrow> jsstring \<Rightarrow> jsstring \<Rightarrow> raw_question \<Rightarrow> raw_question \<Rightarrow> nat \<Rightarrow> jsstring
   \<Rightarrow> merged_question option \<times> merge_request list" where
  "createMergedQuestion w framework1 framework2 question1 question2 index thematicConnection =
     (let text1 = cleanInput (orEmpty (question question1));
          text2 = cleanInput (orEmpty (question question2));
          defaultEmoji = emojis ! (randomIndex w mod 12)
      in if normalizeQuestion text1 = normalizeQuestion text2
         then (Some (questionOf framework1 framework2 question1 question2 index text1 text2
                       (defaultEmoji @ js '' '' @ text1) defaultEmoji (isoNow w) False), [])
         else
           (let similarityScore = calculateQuestionSimilarity
                  \<lparr>question = Some text1, category = category question1,
                   ref = None, oid = None\<rparr>
                  \<lparr>question = Some text2, category = category question2,
                   ref = None, oid = None\<rparr>;
                request = \<lparr>reqFramework1 = framework1, reqFramework2 = framework2,
                   reqQuestion1 = text1, reqQuestion2 = text2,
                   reqThematicConnection = thematicConnection,
                   reqSimilarityScore = similarityScore\<rparr>
            in (case race w request of
                  Timeout \<Rightarrow> None
                | Resolved resolved \<Rightarrow>
                    (case finishMerged defaultEmoji resolved of
                       None \<Rightarrow> None
                     | Some finalText \<Rightarrow>
                         Some (questionOf framework1 framework2 question1 question2 index
                                 text1 text2 finalText defaultEmoji (isoNow w) True)),
                [request])))"

text \<open>
  The shape of the text of a merged question: it starts with the glyph in the field
  \<open>emoji\<close>, one of the twelve, and a space; when \<open>mergeQuestionsWithAI\<close> made it, it
  ends with a question mark or a full stop, passes the format test and has 10 to 500
  code units; when the two questions were identical, the rest is the cleaned first
  question as it is.
\<close>

definition formatted :: "merged_question \<Rightarrow> bool" where
  "formatted q =
     (emoji q \<in> set emojis \<and>
      startsWith (qtext q) (emoji q @ js '' '') \<and>
      (if generatedWithAI q
       then (endsWith (qtext q) (js ''?'') \<or> endsWith (qtext q) (js ''.'')) \<and>
            formatOk (qtext q) \<and> 10 \<le> length (qtext q) \<and> length (qtext q) \<le> 500
       else qtext q = emoji q @ js '' '' @ otext (originalQuestions q ! 0)))"

section \<open>The pipeline (generateQuestionsFromFrameworks)\<close>

record candidate_pair =
  framework1 :: jsstring
  framework2 :: jsstring
  question1 :: raw_question
  question2 :: raw_question
  score :: rat
  thematicConnection :: jsstring

text \<open>
  What one run takes from outside: the outcome of the two fetches made for the
  framework at each position of the list, and the world of the call of
  \<open>createMergedQuestion\<close> for the pair at each position of the ranking (every position
  is merged at most once in a run).
\<close>

record world =
  fetchQuestions :: "nat \<Rightarrow> fetch_result"
  fetchDescription :: "nat \<Rightarrow> fetch_result"
  mergeCall :: "nat \<Rightarrow> call_world"

text \<open>
  \<open>xs.slice(s, e)\<close> on integers: a negative index counts from the end, and both are
  clamped to the list.
\<close>

definition relIndex :: "int \<Rightarrow> int \<Rightarrow> int" where
  "relIndex len i = (if i < 0 then max (len + i) 0 else min i len)"

definition jsSlice :: "'a list \<Rightarrow> int \<Rightarrow> int \<Rightarrow> 'a list" where
  "jsSlice xs s e =
     (let len = int (length xs); k = relIndex len s; final = relIndex len e
      in take (nat (final - k)) (drop (nat k) xs))"

definition frameworkData ::
  "world \<Rightarrow> jsstring list \<Rightarrow> (jsstring \<times> raw_question list \<times> jsstring) list" where
  "frameworkData w fws =
     map (\<lambda>(i, framework).
            (framework,
             getQuestionsForFramework (fetchQuestions w i) framework,
             getFrameworkDescription (fetchDescription w i) framework))
         (enumerate 0 fws)"

text \<open>The two lookup objects, filled in the order of the list.\<close>

definition allFrameworkQuestions ::
  "(jsstring \<times> raw_question list \<times> jsstring) list \<Rightarrow> jsstring \<Rightarrow> raw_question list option" where
  "allFrameworkQuestions fd = fold (\<lambda>(framework, qs, d) m. m(framework \<mapsto> qs)) fd Map.empty"

definition frameworkDescriptions ::
  "(jsstring \<times> raw_question list \<times> jsstring) list \<Rightarrow> jsstring \<Rightarrow> jsstring option" where
  "frameworkDescriptions fd = fold (\<lambda>(framework, qs, d) m. m(framework \<mapsto> d)) fd Map.empty"

definition questionsIn :: "(jsstring \<Rightarrow> raw_question list option) \<Rightarrow> jsstring \<Rightarrow> raw_question list" where
  "questionsIn m framework = (case m framework of None \<Rightarrow> [] | Some qs \<Rightarrow> qs)"

definition descriptionIn :: "(jsstring \<Rightarrow> jsstring option) \<Rightarrow> jsstring \<Rightarrow> jsstring" where
  "descriptionIn m framework = (case m framework of None \<Rightarrow> [] | Some d \<Rightarrow> d)"

text \<open>The framework pairs \<open>i < j\<close>, each with its thematic connection.\<close>

definition frameworkPairs ::
  "jsstring list \<Rightarrow> (jsstring \<Rightarrow> jsstring option) \<Rightarrow> (jsstring \<times> jsstring \<times> jsstring) list" where
  "frameworkPairs fws descs =
     concat (map (\<lambda>i. map (\<lambda>j.
         (fws ! i, fws ! j,
          findThematicConnection (fws ! i) (fws ! j)
            (descriptionIn descs (fws ! i)) (descriptionIn descs (fws ! j))))
       [i + 1 ..< length fws]) [0 ..< length fws])"

text \<open>The body of the chunk callback: the scored cross product of one framework pair.\<close>

definition scoredPair ::
  "jsstring \<Rightarrow> jsstring \<Rightarrow> jsstring \<Rightarrow> raw_question \<Rightarrow> raw_question \<Rightarrow> candidate_pair list" where
  "scoredPair f1 f2 theme q1 q2 =
     (let s = calculateQuestionSimilarity q1 q2
      in if s > 0
         then [\<lparr>framework1 = f1, framework2 = f2, question1 = q1, question2 = q2,
                score = s, thematicConnection = theme\<rparr>]
         else [])"

definition pairsOf ::
  "(jsstring \<Rightarrow> raw_question list option) \<Rightarrow> jsstring \<times> jsstring \<times> jsstring
   \<Rightarrow> candidate_pair list" where
  "pairsOf qm fp =
     (case fp of (f1, f2, theme) \<Rightarrow>
        (let questions1 = questionsIn qm f1; questions2 = questionsIn qm f2
         in if questions1 = [] \<or> questions2 = [] then []
            else concat (map (\<lambda>q1. concat (map (\<lambda>q2. scoredPair f1 f2 theme q1 q2) questions2))
                           questions1)))"

definition CHUNK_SIZE :: nat where
  "CHUNK_SIZE = 50"

text \<open>The loop over the chunks of framework pairs; it appends the results of each chunk.\<close>

function chunkLoop ::
  "('a \<Rightarrow> 'b list) \<Rightarrow> 'a list \<Rightarrow> nat \<Rightarrow> 'b list \<Rightarrow> 'b list" where
  "chunkLoop f fps i acc =
     (if i < length fps
      then chunkLoop f fps (i + CHUNK_SIZE)
             (acc @ concat (map f (take CHUNK_SIZE (drop i fps))))
      else acc)"
  by pat_completeness auto
termination
  by (relation "measure (\<lambda>(f, fps, i, acc). length fps - i)") (auto simp: CHUNK_SIZE_def)

declare chunkLoop.simps [simp del]

text \<open>\<open>allQuestionPairs\<close> before the sort.\<close>

definition candidatePairs :: "world \<Rightarrow> jsstring list \<Rightarrow> candidate_pair list" where
  "candidatePairs w fws =
     (let fd = frameworkData w fws
      in chunkLoop (pairsOf (allFrameworkQuestions fd))
           (frameworkPairs fws (frameworkDescriptions fd)) 0 [])"

text \<open>
  \<open>sort((a, b) => b.score - a.score)\<close>: the sort is stable, so this is the stable sort
  on the negated score.
\<close>

definition sortPairs :: "candidate_pair list \<Rightarrow> candidate_pair list" where
  "sortPairs ps = sort_key (\<lambda>p. - score p) ps"

text \<open>\<open>allQuestionPairs\<close> after the sort, and \<open>selectedPairs\<close>.\<close>

definition rankedPairs :: "world \<Rightarrow> jsstring list \<Rightarrow> candidate_pair list" where
  "rankedPairs w fws = sortPairs (candidatePairs w fws)"

definition selectPairs :: "candidate_pair list \<Rightarrow> int \<Rightarrow> candidate_pair list" where
  "selectPairs ranked count' = jsSlice ranked 0 count'"

definition mergeAt :: "world \<Rightarrow> nat \<Rightarrow> candidate_pair \<Rightarrow> nat \<Rightarrow> merged_question option" where
  "mergeAt w pos pair index =
     fst (createMergedQuestion (mergeCall w pos) (framework1 pair) (framework2 pair)
            (question1 pair) (question2 pair) index (thematicConnection pair))"

text \<open>
  One \<open>Promise.all\<close> over a batch that starts at position \<open>pos\<close> of the ranking, while
  \<open>generatedQuestions\<close> has \<open>base\<close> elements; the null results are filtered out.
\<close>

definition mergeBatch :: "world \<Rightarrow> nat \<Rightarrow> candidate_pair list \<Rightarrow> nat \<Rightarrow> merged_question list" where
  "mergeBatch w pos batch base =
     List.map_filter (\<lambda>(index, pair). mergeAt w (pos + index) pair (base + index))
       (enumerate 0 batch)"

definition BATCH_SIZE :: nat where
  "BATCH_SIZE = 10"

function batchLoop ::
  "world \<Rightarrow> int \<Rightarrow> candidate_pair list \<Rightarrow> nat \<Rightarrow> merged_question list
   \<Rightarrow> merged_question list" where
  "batchLoop w count' selectedPairs batchStart generatedQuestions =
     (if batchStart < length selectedPairs
      then
        (let batchEnd = min (batchStart + BATCH_SIZE) (length selectedPairs);
             batch = take (batchEnd - batchStart) (drop batchStart selectedPairs);
             generated = generatedQuestions
                @ mergeBatch w batchStart batch (length generatedQuestions)
         in if int (length generated) \<ge> count' then generated
            else batchLoop w count' selectedPairs (batchStart + BATCH_SIZE) generated)
      else generatedQuestions)"
  by pat_completeness auto
termination
  by (relation "measure (\<lambda>(w, count', selectedPairs, batchStart, g).
        length selectedPairs - batchStart)") (auto simp: BATCH_SIZE_def)

declare batchLoop.simps [simp del]

text \<open>The second round, on the pairs ranked from \<open>count\<close> to \<open>2 * count\<close>.\<close>

definition additionalQuestions ::
  "world \<Rightarrow> int \<Rightarrow> candidate_pair list \<Rightarrow> merged_question list \<Rightarrow> merged_question list" where
  "additionalQuestions w count' ranked generatedQuestions =
     (if int (length generatedQuestions) < count' \<and> int (length ranked) > count'
      then
        (let additionalPairs = jsSlice ranked count' (count' * 2);
             chosen = jsSlice additionalPairs 0 (count' - int (length generatedQuestions))
         in mergeBatch w (nat count') chosen (length generatedQuestions))
      else [])"

text \<open>\<open>generatedQuestions\<close> when the final test is reached.\<close>

definition generatedQuestionsOf :: "world \<Rightarrow> int \<Rightarrow> jsstring list \<Rightarrow> merged_question list" where
  "generatedQuestionsOf w count' fws =
     (let ranked = rankedPairs w fws;
          generated = batchLoop w count' (selectPairs ranked count') 0 []
      in generated @ additionalQuestions w count' ranked generated)"

definition generateQuestionsFromFrameworks ::
  "world \<Rightarrow> int \<Rightarrow> jsstring list \<Rightarrow> error + merged_question list" where
  "generateQuestionsFromFrameworks w count' fws =
     (if length fws < 2 then Inr []
      else
        (let generatedQuestions = generatedQuestionsOf w count' fws
         in if generatedQuestions = [] \<and> count' > 0 then Inl NoQuestionsGenerated
            else Inr (jsSlice generatedQuestions 0 count')))"

section \<open>Concrete inputs\<close>

text \<open>One hundred and one stores under distinct keys.\<close>

definition demoStores :: "(nat \<times> nat) list" where
  "demoStores = map (\<lambda>n. (n, n + 1000)) [0 ..< 101]"

text \<open>
  Two frameworks with one question each, of the same text; the fetches of the
  descriptions fail.
\<close>

definition demoQuestionG :: raw_question where
  "demoQuestionG = \<lparr>question = Some (js ''Describe your climate policy.''),
     category = Some (js ''Environment''), ref = Some (js ''G1''), oid = None\<rparr>"

definition demoQuestionS :: raw_question where
  "demoQuestionS = \<lparr>question = Some (js ''Describe your climate policy.''),
     category = None, ref = None, oid = Some (js ''s1'')\<rparr>"

definition demoDocument :: "framework_doc list" where
  "demoDocument = [
     \<lparr>name = js ''GRI'', description = Some (js ''Global reporting''),
      questions = Some [demoQuestionG]\<rparr>,
     \<lparr>name = js ''SASB'', description = None, questions = Some [demoQuestionS]\<rparr>]"

definition demoCall :: call_world where
  "demoCall = \<lparr>randomIndex = 0, isoNow = js ''2025-01-01T00:00:00.000Z'',
     race = (\<lambda>request. Timeout)\<rparr>"

definition demoWorld :: world where
  "demoWorld = \<lparr>fetchQuestions = (\<lambda>i. Document demoDocument),
     fetchDescription = (\<lambda>i. FetchRejected),
     mergeCall = (\<lambda>pos. demoCall)\<rparr>"

definition demoFrameworks :: "jsstring list" where
  "demoFrameworks = [js ''GRI'', js ''SASB'']"

text \<open>
  The candidate pair and the merged question of that run.
\<close>

definition demoPair :: candidate_pair where
  "demoPair = \<lparr>framework1 = js ''GRI'', framework2 = js ''SASB'',
     question1 = demoQuestionG, question2 = demoQuestionS, score = 56 / 3,
     thematicConnection = js ''material sustainability reporting''\<rparr>"

definition demoMerged :: merged_question where
  "demoMerged = \<lparr>qid = js ''q1'',
     qtext = [55356, 57119] @ js '' Describe your climate policy.'',
     frameworks = [js ''GRI'', js ''SASB''],
     originalQuestions = [
       \<lparr>otext = js ''Describe your climate policy.'', oframework = js ''GRI'',
        ocategory = Some (js ''Environment''), oref = Some (js ''G1'')\<rparr>,
       \<lparr>otext = js ''Describe your climate policy.'', oframework = js ''SASB'',
        ocategory = None, oref = Some (js ''s1'')\<rparr>],
     emoji = [55356, 57119],
     qcategory = Some (js ''Environment''),
     qref = js ''GRI-SASB-0'',
     timestamp = js ''2025-01-01T00:00:00.000Z'',
     generatedWithAI = False\<rparr>"

text \<open>
  A question with parentheses, a question of two lines and its one-line form, and a
  second topic for the merge path.
\<close>

definition demoQuestionP :: raw_question where
  "demoQuestionP = \<lparr>question = Some (js ''Why (now)?''), category = None, ref = None,
     oid = None\<rparr>"

definition demoTwoLines :: jsstring where
  "demoTwoLines = js ''Risk'' @ [10] @ js ''plan?''"

definition demoQuestionL1 :: raw_question where
  "demoQuestionL1 = \<lparr>question = Some demoTwoLines, category = None,
     ref = None, oid = None\<rparr>"

definition demoQuestionL2 :: raw_question where
  "demoQuestionL2 = \<lparr>question = Some (js ''Risk plan?''), category = None, ref = None,
     oid = None\<rparr>"

definition demoQuestionW :: raw_question where
  "demoQuestionW = \<lparr>question = Some (js ''Report water use.''), category = None,
     ref = None, oid = None\<rparr>"

text \<open>
  A call in which the merge resolves with a text.
\<close>

definition demoResolved :: jsstring where
  "demoResolved = js ''how is climate and water risk managed''"

definition demoCallAI :: call_world where
  "demoCallAI = \<lparr>randomIndex = 4, isoNow = js ''2025-01-01T00:00:00.000Z'',
     race = (\<lambda>request. Resolved demoResolved)\<rparr>"

definition demoMergedAI :: merged_question where
  "demoMergedAI = \<lparr>qid = js ''q1'',
     qtext = [9889] @ js '' How is climate and water risk managed?'',
     frameworks = [js ''GRI'', js ''SASB''],
     originalQuestions = [
       \<lparr>otext = js ''Describe your climate policy.'', oframework = js ''GRI'',
        ocategory = Some (js ''Environment''), oref = Some (js ''G1'')\<rparr>,
       \<lparr>otext = js ''Report water use.'', oframework = js ''SASB'',
        ocategory = None, oref = None\<rparr>],
     emoji = [9889],
     qcategory = Some (js ''Environment''),
     qref = js ''GRI-SASB-0'',
     timestamp = js ''2025-01-01T00:00:00.000Z'',
     generatedWithAI = True\<rparr>"

text \<open>
  A run in which no fetch succeeds.
\<close>

definition demoWorldDown :: world where
  "demoWorldDown = \<lparr>fetchQuestions = (\<lambda>i. ResponseNotOk 500),
     fetchDescription = (\<lambda>i. FetchRejected),
     mergeCall = (\<lambda>pos. demoCall)\<rparr>"

section \<open>Properties\<close>

subsection \<open>The cache\<close>

lemma length_mapSet: "length (mapSet m k v) \<le> Suc (length m)"
  by (induction m) auto

lemma mapSet_fresh: "k \<notin> fst ` set m \<Longrightarrow> mapSet m k v = m @ [(k, v)]"
  by (induction m) auto

lemma mapDelete_head_distinct:
  "distinct (map fst ((k, v) # m)) \<Longrightarrow> mapDelete ((k, v) # m) k = m"
  by (auto simp: mapDelete_def filter_id_conv rev_image_eqI)

lemma cacheStore_bound: "length c \<le> 100 \<Longrightarrow> length (cacheStore c k v) \<le> 100"
proof -
  assume c: "length c \<le> 100"
  have le: "length (mapSet c k v) \<le> 101"
    using length_mapSet [of c k v] c by simp
  show ?thesis
  proof (cases "mapSet c k v")
    case Nil
    then show ?thesis by (simp add: cacheStore_def)
  next
    case (Cons e rest)
    obtain k0 v0 where e: "e = (k0, v0)" by (cases e)
    have "length (filter (\<lambda>x. fst x \<noteq> k0) rest) \<le> length rest"
      by (rule length_filter_le)
    also have "length rest \<le> 100" using le Cons by simp
    finally have "length (filter (\<lambda>x. fst x \<noteq> k0) rest) \<le> 100" .
    with le Cons e show ?thesis
      by (simp add: cacheStore_def mapDelete_def Let_def)
  qed
qed

lemma cacheAfter_snoc:
  "cacheAfter (stores @ [(k, v)]) = cacheStore (cacheAfter stores) k v"
  by (simp add: cacheAfter_def)

lemma cacheAfter_bound: "length (cacheAfter stores) \<le> 100"
proof (induction stores rule: rev_induct)
  case Nil
  show ?case by (simp add: cacheAfter_def)
next
  case (snoc x xs)
  obtain k v where x: "x = (k, v)" by (cases x)
  show ?case unfolding x cacheAfter_snoc by (rule cacheStore_bound [OF snoc])
qed

lemma cacheStore_append:
  assumes "distinct (map fst (old @ [(k, v)]))"
  shows "cacheStore old k v =
           (if length old < 100 then old @ [(k, v)] else tl (old @ [(k, v)]))"
proof -
  from assms have "k \<notin> fst ` set old" by auto
  then have set: "mapSet old k v = old @ [(k, v)]" by (rule mapSet_fresh)
  show ?thesis
  proof (cases "length old < 100")
    case True
    then show ?thesis by (simp add: cacheStore_def set Let_def del: mapSet.simps)
  next
    case False
    obtain e rest where split: "old @ [(k, v)] = e # rest"
      by (cases "old @ [(k, v)]") auto
    obtain k0 v0 where e: "e = (k0, v0)" by (cases e)
    have del: "mapDelete (old @ [(k, v)]) k0 = rest"
      using assms unfolding split e by (rule mapDelete_head_distinct)
    have "length (old @ [(k, v)]) > 100" using False by simp
    then have "cacheStore old k v = mapDelete (old @ [(k, v)]) k0"
      unfolding cacheStore_def set Let_def by (simp add: split e)
    with del split False show ?thesis by simp
  qed
qed

lemma cacheAfter_distinct:
  "distinct (map fst stores) \<Longrightarrow> cacheAfter stores = drop (length stores - 100) stores"
proof (induction stores rule: rev_induct)
  case Nil
  show ?case by (simp add: cacheAfter_def)
next
  case (snoc x xs)
  obtain k v where x: "x = (k, v)" by (cases x)
  from snoc.prems have dxs: "distinct (map fst xs)" and fresh: "k \<notin> fst ` set xs"
    by (auto simp: x)
  define old where "old = drop (length xs - 100) xs"
  have IH: "cacheAfter xs = old" using snoc.IH dxs by (simp add: old_def)
  have "k \<notin> fst ` set old" using fresh by (auto simp: old_def dest: in_set_dropD)
  moreover have "distinct (map fst old)"
    using dxs by (simp add: old_def drop_map [symmetric])
  ultimately have dall: "distinct (map fst (old @ [(k, v)]))" by simp
  have step: "cacheAfter (xs @ [x]) =
      (if length old < 100 then old @ [(k, v)] else tl (old @ [(k, v)]))"
    unfolding x cacheAfter_snoc IH by (rule cacheStore_append [OF dall])
  show ?case
  proof (cases "length xs < 100")
    case True
    then show ?thesis unfolding step by (simp add: old_def x)
  next
    case False
    then have "length old = 100" by (simp add: old_def)
    then have "cacheAfter (xs @ [x]) = tl (old @ [(k, v)])" unfolding step by simp
    also have "\<dots> = drop 1 (drop (length xs - 100) (xs @ [(k, v)]))"
      using False by (simp add: old_def drop_Suc tl_drop)
    also have "\<dots> = drop (Suc (length xs) - 100) (xs @ [(k, v)])"
    proof -
      have "Suc (length xs - 100) = Suc (length xs) - 100" using False by arith
      then show ?thesis by (simp del: drop_append)
    qed
    finally show ?thesis by (simp add: x del: drop_append)
  qed
qed

text \<open>
  Claim C10. The cache of a process never holds more than 100 entries after a store,
  and eviction is first in, first out: after 101 stores under distinct keys the key
  stored first is gone, and each of the other 100 keys still gives its value.
\<close>

theorem cache_bounded_fifo:
  "length (cacheAfter stores) \<le> 100 \<and>
   (distinct (map fst stores) \<and> length stores = 101 \<longrightarrow>
      \<not> mapHas (cacheAfter stores) (fst (stores ! 0)) \<and>
      mapGet (cacheAfter stores) (fst (stores ! 0)) = None \<and>
      (\<forall>i. 1 \<le> i \<and> i < 101 \<longrightarrow>
         mapGet (cacheAfter stores) (fst (stores ! i)) = Some (snd (stores ! i))))"
proof (intro conjI impI allI)
  show "length (cacheAfter stores) \<le> 100" by (rule cacheAfter_bound)
next
  assume h: "distinct (map fst stores) \<and> length stores = 101"
  then have ca: "cacheAfter stores = drop 1 stores"
    using cacheAfter_distinct [of stores] by simp
  from h obtain e rest where st: "stores = e # rest" by (cases stores) auto
  from h st have notin: "fst e \<notin> fst ` set rest" by auto
  from ca st have ca': "cacheAfter stores = rest" by simp
  show "\<not> mapHas (cacheAfter stores) (fst (stores ! 0))"
    unfolding ca' using notin by (simp add: st mapHas_def)
  show "mapGet (cacheAfter stores) (fst (stores ! 0)) = None"
    unfolding ca' using notin by (simp add: st mapGet_def map_of_eq_None_iff)
next
  fix i :: nat
  assume h: "distinct (map fst stores) \<and> length stores = 101" and i: "1 \<le> i \<and> i < 101"
  then have ca: "cacheAfter stores = drop 1 stores"
    using cacheAfter_distinct [of stores] by simp
  from h obtain e rest where st: "stores = e # rest" by (cases stores) auto
  from h st have d: "distinct (map fst rest)" and len: "length rest = 100" by auto
  from i obtain j where j: "i = Suc j" "j < 100" by (cases i) auto
  have "rest ! j \<in> set rest" using j len by simp
  then have "map_of rest (fst (rest ! j)) = Some (snd (rest ! j))"
    using d by (simp add: map_of_is_SomeI)
  moreover from ca st have "cacheAfter stores = rest" by simp
  ultimately show "mapGet (cacheAfter stores) (fst (stores ! i)) = Some (snd (stores ! i))"
    by (simp add: st mapGet_def j)
qed

lemma demoStores_nth: "i < 101 \<Longrightarrow> demoStores ! i = (i, i + 1000)"
  by (simp add: demoStores_def del: upt_Suc upt_rec_numeral)

theorem cache_bounded_fifo_witness:
  "distinct (map fst demoStores) \<and> length demoStores = 101 \<and>
   length (cacheAfter demoStores) \<le> 100 \<and>
   mapGet (cacheAfter demoStores) 0 = None \<and>
   mapGet (cacheAfter demoStores) 1 = Some 1001 \<and>
   mapGet (cacheAfter demoStores) 100 = Some 1100"
proof -
  have d: "distinct (map fst demoStores) \<and> length demoStores = 101"
    by (simp add: demoStores_def comp_def del: upt_Suc upt_rec_numeral)
  from cache_bounded_fifo [of demoStores] d
  have b: "length (cacheAfter demoStores) \<le> 100"
    and z: "mapGet (cacheAfter demoStores) (fst (demoStores ! 0)) = None"
    and r: "\<forall>i. 1 \<le> i \<and> i < 101 \<longrightarrow>
         mapGet (cacheAfter demoStores) (fst (demoStores ! i)) = Some (snd (demoStores ! i))"
    by blast+
  from r have "mapGet (cacheAfter demoStores) (fst (demoStores ! 1)) = Some (snd (demoStores ! 1))"
    and "mapGet (cacheAfter demoStores) (fst (demoStores ! 100)) = Some (snd (demoStores ! 100))"
    by simp_all
  with d b z show ?thesis by (simp add: demoStores_nth)
qed

subsection \<open>Sets as lists\<close>

lemma set_foldl_setAdd: "set (foldl setAdd acc xs) = set acc \<union> set xs"
  by (induction xs arbitrary: acc) (auto simp: setAdd_def)

lemma distinct_foldl_setAdd: "distinct acc \<Longrightarrow> distinct (foldl setAdd acc xs)"
  by (induction xs arbitrary: acc) (auto simp: setAdd_def)

lemma set_newSet: "set (newSet xs) = set xs"
  by (simp add: newSet_def set_foldl_setAdd)

lemma distinct_newSet: "distinct (newSet xs)"
  by (simp add: newSet_def distinct_foldl_setAdd)

subsection \<open>The scorer\<close>

lemma directMatchStep_weight:
  "directMatchStep (s, S) w = (s + wordWeight w, S \<union> groupsOf {w})"
  by (cases "findGroup semanticGroups w")
     (auto simp: directMatchStep_def wordWeight_def groupsOf_def)

lemma groupsOf_insert: "groupsOf (insert w ws) = groupsOf {w} \<union> groupsOf ws"
  by (auto simp: groupsOf_def)

lemma firstPass_fold:
  "foldl directMatchStep (s, S) ws = (s + sum_list (map wordWeight ws), S \<union> groupsOf (set ws))"
proof (induction ws arbitrary: s S)
  case Nil
  show ?case by (simp add: groupsOf_def)
next
  case (Cons w ws)
  have "foldl directMatchStep (s, S) (w # ws) =
          foldl directMatchStep (s + wordWeight w, S \<union> groupsOf {w}) ws"
    by (simp only: foldl_Cons directMatchStep_weight)
  also have "\<dots> = (s + wordWeight w + sum_list (map wordWeight ws),
                    S \<union> groupsOf {w} \<union> groupsOf (set ws))"
    by (rule Cons.IH)
  also have "\<dots> = (s + sum_list (map wordWeight (w # ws)), S \<union> groupsOf (set (w # ws)))"
    by (simp add: groupsOf_insert [of w "set ws"] Un_assoc add.assoc)
  finally show ?case .
qed

lemma firstPass_set:
  "foldl directMatchStep (0, {}) (filter (\<lambda>w. w \<in> set (newSet b)) (newSet a)) =
     (sum wordWeight (set a \<inter> set b), groupsOf (set a \<inter> set b))"
proof -
  let ?m = "filter (\<lambda>w. w \<in> set (newSet b)) (newSet a)"
  have d: "distinct ?m" by (simp add: distinct_newSet)
  have s: "set ?m = set a \<inter> set b" by (auto simp: set_newSet)
  have "sum_list (map wordWeight ?m) = sum wordWeight (set ?m)"
    using d by (rule sum_list_distinct_conv_sum_set)
  then show ?thesis unfolding firstPass_fold using s by simp
qed

lemma groupMatchStep_commute: "groupMatchStep a b = groupMatchStep b a"
  by (auto simp: groupMatchStep_def fun_eq_iff)

lemma wordScoreOf_commute: "wordScoreOf a b = wordScoreOf b a"
  unfolding wordScoreOf_def Let_def firstPass_set
  by (simp add: Int_commute groupMatchStep_commute [of a b])

lemma patternBonus_commute: "patternBonus ps t1 t2 = patternBonus ps t2 t1"
  by (induction ps) auto

lemma categoryBonus_commute: "categoryBonus q1 q2 = categoryBonus q2 q1"
  by (auto simp: categoryBonus_def)

lemma similarityScoreOf_commute: "similarityScoreOf q1 q2 = similarityScoreOf q2 q1"
proof -
  define t1 where "t1 = toLowerCase (orEmpty (question q1))"
  define t2 where "t2 = toLowerCase (orEmpty (question q2))"
  define w1 where "w1 = questionWords t1"
  define w2 where "w2 = questionWords t2"
  have l: "similarityScoreOf q1 q2 =
      categoryBonus q1 q2
      + (if length (newSet w1) + length (newSet w2) > 0
         then wordScoreOf w1 w2 / of_nat (length (newSet w1) + length (newSet w2)) * 20 else 0)
      + (if structureOf t1 = structureOf t2 then 2 else 0)
      + patternBonus questionPatterns t1 t2"
    by (simp add: similarityScoreOf_def Let_def t1_def t2_def w1_def w2_def)
  have r: "similarityScoreOf q2 q1 =
      categoryBonus q2 q1
      + (if length (newSet w2) + length (newSet w1) > 0
         then wordScoreOf w2 w1 / of_nat (length (newSet w2) + length (newSet w1)) * 20 else 0)
      + (if structureOf t2 = structureOf t1 then 2 else 0)
      + patternBonus questionPatterns t2 t1"
    by (simp add: similarityScoreOf_def Let_def t1_def t2_def w1_def w2_def)
  have "length (newSet w2) + length (newSet w1) = length (newSet w1) + length (newSet w2)"
    by simp
  moreover have "(structureOf t2 = structureOf t1) = (structureOf t1 = structureOf t2)"
    by auto
  ultimately show ?thesis
    unfolding l r
    by (simp only: wordScoreOf_commute [of w2 w1] patternBonus_commute [of _ t2 t1]
        categoryBonus_commute [of q2 q1])
qed

text \<open>
  Claim C6. The similarity scorer is symmetric: swapping the two questions changes
  neither the score after the threshold nor the score before it, and the category
  signal, the word signal and the pattern signal are each symmetric by themselves.
\<close>

theorem similarity_symmetric:
  "calculateQuestionSimilarity q1 q2 = calculateQuestionSimilarity q2 q1 \<and>
   similarityScoreOf q1 q2 = similarityScoreOf q2 q1 \<and>
   categoryBonus q1 q2 = categoryBonus q2 q1 \<and>
   wordScoreOf ws1 ws2 = wordScoreOf ws2 ws1 \<and>
   patternBonus questionPatterns t1 t2 = patternBonus questionPatterns t2 t1"
proof (intro conjI)
  show "calculateQuestionSimilarity q1 q2 = calculateQuestionSimilarity q2 q1"
    unfolding calculateQuestionSimilarity_def similarityScoreOf_commute [of q1 q2] ..
  show "similarityScoreOf q1 q2 = similarityScoreOf q2 q1"
    by (rule similarityScoreOf_commute)
  show "categoryBonus q1 q2 = categoryBonus q2 q1"
    by (rule categoryBonus_commute)
  show "wordScoreOf ws1 ws2 = wordScoreOf ws2 ws1"
    by (rule wordScoreOf_commute)
  show "patternBonus questionPatterns t1 t2 = patternBonus questionPatterns t2 t1"
    by (rule patternBonus_commute)
qed

lemma calculate_zero_or_threshold:
  "calculateQuestionSimilarity q1 q2 = 0 \<or> 10 \<le> calculateQuestionSimilarity q1 q2"
  by (simp add: calculateQuestionSimilarity_def MIN_SIMILARITY_THRESHOLD_def Let_def)

subsection \<open>Candidate pairs\<close>

lemma chunkLoop_concat: "chunkLoop f fps i acc = acc @ concat (map f (drop i fps))"
proof (induction f fps i acc rule: chunkLoop.induct)
  case (1 f fps i acc)
  show ?case
  proof (cases "i < length fps")
    case True
    have "drop (i + CHUNK_SIZE) fps = drop CHUNK_SIZE (drop i fps)"
      by (simp add: add.commute)
    then have "drop i fps = take CHUNK_SIZE (drop i fps) @ drop (i + CHUNK_SIZE) fps"
      by (simp only: append_take_drop_id)
    then have "concat (map f (drop i fps)) =
        concat (map f (take CHUNK_SIZE (drop i fps))) @ concat (map f (drop (i + CHUNK_SIZE) fps))"
      by (metis concat_append map_append)
    with True "1.IH" show ?thesis
      by (subst chunkLoop.simps) simp
  next
    case False
    then show ?thesis by (subst chunkLoop.simps) simp
  qed
qed

lemma candidatePairs_concat:
  "candidatePairs w fws =
     concat (map (pairsOf (allFrameworkQuestions (frameworkData w fws)))
                 (frameworkPairs fws (frameworkDescriptions (frameworkData w fws))))"
  by (simp add: candidatePairs_def Let_def chunkLoop_concat)

lemma scoredPair_score:
  "p \<in> set (scoredPair f1 f2 theme q1 q2) \<Longrightarrow>
     score p = calculateQuestionSimilarity q1 q2 \<and> 0 < score p"
  by (auto simp: scoredPair_def Let_def split: if_splits)

lemma pairsOf_score: "p \<in> set (pairsOf qm fp) \<Longrightarrow> 10 \<le> score p"
proof -
  assume p: "p \<in> set (pairsOf qm fp)"
  obtain f1 f2 theme where fp: "fp = (f1, f2, theme)" by (cases fp)
  from p obtain q1 q2 where "p \<in> set (scoredPair f1 f2 theme q1 q2)"
    by (auto simp: pairsOf_def fp Let_def split: if_splits)
  then have "score p = calculateQuestionSimilarity q1 q2" and "0 < score p"
    by (auto dest: scoredPair_score)
  with calculate_zero_or_threshold [of q1 q2] show ?thesis by auto
qed

lemma candidatePairs_score: "p \<in> set (candidatePairs w fws) \<Longrightarrow> 10 \<le> score p"
  by (auto simp: candidatePairs_concat dest: pairsOf_score)

lemma set_jsSlice: "set (jsSlice xs s e) \<subseteq> set xs"
  unfolding jsSlice_def Let_def
  by (meson order_trans set_take_subset set_drop_subset)

lemma rankedPairs_score: "p \<in> set (rankedPairs w fws) \<Longrightarrow> 10 \<le> score p"
  by (simp add: rankedPairs_def sortPairs_def candidatePairs_score)

text \<open>
  Claim C3. The scorer returns 0 or a value of at least 10, and so every candidate pair
  that is kept, every pair of the ranking and every selected pair has a score of at
  least 10.
\<close>

theorem threshold_gate:
  "(calculateQuestionSimilarity q1 q2 = 0 \<or> 10 \<le> calculateQuestionSimilarity q1 q2) \<and>
   (\<forall>p \<in> set (candidatePairs w fws). 10 \<le> score p) \<and>
   (\<forall>p \<in> set (rankedPairs w fws). 10 \<le> score p) \<and>
   (\<forall>p \<in> set (selectPairs (rankedPairs w fws) count'). 10 \<le> score p)"
proof (intro conjI ballI)
  show "calculateQuestionSimilarity q1 q2 = 0 \<or> 10 \<le> calculateQuestionSimilarity q1 q2"
    by (rule calculate_zero_or_threshold)
next
  fix p assume "p \<in> set (candidatePairs w fws)"
  then show "10 \<le> score p" by (rule candidatePairs_score)
next
  fix p assume "p \<in> set (rankedPairs w fws)"
  then show "10 \<le> score p" by (rule rankedPairs_score)
next
  fix p assume "p \<in> set (selectPairs (rankedPairs w fws) count')"
  then have "p \<in> set (rankedPairs w fws)"
    using set_jsSlice [of "rankedPairs w fws" 0 count'] by (auto simp: selectPairs_def)
  then show "10 \<le> score p" by (rule rankedPairs_score)
qed

subsection \<open>Ranking\<close>





subsection \<open>Too few frameworks\<close>

text \<open>
  Claim C1, as the code has it. With fewer than two framework names the operation
  returns the empty list as its normal result; it raises no error.
\<close>

theorem too_few_frameworks_empty:
  "length fws < 2 \<Longrightarrow> generateQuestionsFromFrameworks w count' fws = Inr []"
  by (simp add: generateQuestionsFromFrameworks_def)

subsection \<open>Keywords\<close>

lemma splitWsFrom_nonempty: "splitWsFrom sp s \<noteq> []"
  by (induction s arbitrary: sp) (auto split: list.splits)

text \<open>
  Claim C9, as the code has it. Every token that \<open>extractKeywords\<close> returns is a
  word of the input, split at white space, with the characters \<open>, . ? ; : ' " ! ( )\<close>
  deleted; it is not empty and has none of these ten characters. Its letters keep the
  case of the input. The empty input gives the empty list.
\<close>

theorem extractKeywords_tokens:
  "extractKeywords [] = [] \<and>
   (\<forall>t \<in> set (extractKeywords text').
      t \<noteq> [] \<and> (\<forall>c \<in> set t. c \<notin> set kwPunct) \<and>
      (\<exists>w \<in> set (splitWs text'). t = stripKwPunct w))"
  by (auto simp: extractKeywords_def splitWs_def keepWord_def stripKwPunct_def)

subsection \<open>One merge\<close>

lemma emoji_in_set: "emojis ! (n mod 12) \<in> set emojis"
proof -
  have "length emojis = 12" by (simp add: emojis_def)
  then show ?thesis by (simp add: nth_mem del: set_conv_nth)
qed

lemma endsWith_single: "endsWith t [c] = (t \<noteq> [] \<and> last t = c)"
proof (cases t rule: rev_cases)
  case Nil
  then show ?thesis by (simp add: endsWith_def)
next
  case (snoc ys y)
  then show ?thesis by (simp add: endsWith_def)
qed

lemma js_single: "js [ch] = [of_char ch]"
  by (simp add: js_def)

lemma ensureEnding_ends:
  "endsWith (ensureEnding t) (js ''?'') \<or> endsWith (ensureEnding t) (js ''.'')"
  by (simp add: ensureEnding_def js_single endsWith_single)

lemma capitalize_ends:
  "endsWith t [c] \<Longrightarrow> \<not> isLower c \<Longrightarrow> endsWith (capitalize t) [c]"
  by (cases t) (auto simp: endsWith_single capitalize_def toUpperChar_def)

lemma finishMerged_Some:
  assumes "finishMerged e resolved = Some t"
  shows "t = e @ js '' '' @ capitalize (ensureEnding (cleanOutput resolved))"
    and "formatOk t" and "10 \<le> length t" and "length t \<le> 500"
    and "endsWith t (js ''?'') \<or> endsWith t (js ''.'')"
proof -
  let ?body = "capitalize (ensureEnding (cleanOutput resolved))"
  from assms show t: "t = e @ js '' '' @ ?body"
    and "formatOk t" and "10 \<le> length t" and "length t \<le> 500"
    by (auto simp: finishMerged_def Let_def split: if_splits)
  have "endsWith ?body (js ''?'') \<or> endsWith ?body (js ''.'')"
    using ensureEnding_ends [of "cleanOutput resolved"]
    by (auto simp: js_single isLower_def intro: capitalize_ends)
  then have "endsWith (e @ js '' '' @ ?body) (js ''?'') \<or>
             endsWith (e @ js '' '' @ ?body) (js ''.'')"
    by (auto simp: js_def endsWith_single)
  then show "endsWith t (js ''?'') \<or> endsWith t (js ''.'')" unfolding t .
qed

lemma createMergedQuestion_formatted:
  assumes "createMergedQuestion cw f1 f2 qa qb index theme = (Some q, calls)"
  shows "formatted q"
proof (cases "normalizeQuestion (cleanInput (orEmpty (question qa))) =
              normalizeQuestion (cleanInput (orEmpty (question qb)))")
  case True
  with assms have "q = questionOf f1 f2 qa qb index (cleanInput (orEmpty (question qa)))
      (cleanInput (orEmpty (question qb)))
      (emojis ! (randomIndex cw mod 12) @ js '' '' @ cleanInput (orEmpty (question qa)))
      (emojis ! (randomIndex cw mod 12)) (isoNow cw) False"
    by (simp add: createMergedQuestion_def Let_def)
  then show ?thesis
    by (simp add: formatted_def questionOf_def originalsOf_def emoji_in_set startsWith_def)
next
  case False
  with assms obtain resolved finalText where
    fin: "finishMerged (emojis ! (randomIndex cw mod 12)) resolved = Some finalText" and
    q: "q = questionOf f1 f2 qa qb index (cleanInput (orEmpty (question qa)))
      (cleanInput (orEmpty (question qb))) finalText
      (emojis ! (randomIndex cw mod 12)) (isoNow cw) True"
    by (auto simp: createMergedQuestion_def Let_def split: race_outcome.splits option.splits)
  from finishMerged_Some [OF fin] show ?thesis
    by (simp add: formatted_def q questionOf_def emoji_in_set startsWith_def)
qed

text \<open>
  Claim C5, as the code has it. When the two cleaned question texts are equal after
  normalization, the merge makes no call of \<open>mergeQuestionsWithAI\<close> (its result does not
  depend on the outcome of the race either) and returns a question that is not marked
  as generated, whose text is the emoji, a space and the cleaned first question text,
  which is also the text of its first original question.
\<close>

theorem identical_short_circuit:
  assumes "normalizeQuestion (cleanInput (orEmpty (question qa))) =
           normalizeQuestion (cleanInput (orEmpty (question qb)))"
  shows "\<exists>q. createMergedQuestion cw f1 f2 qa qb index theme = (Some q, []) \<and>
           createMergedQuestion (cw\<lparr>race := anyRace\<rparr>) f1 f2 qa qb index theme = (Some q, []) \<and>
           \<not> generatedWithAI q \<and>
           emoji q \<in> set emojis \<and>
           qtext q = emoji q @ js '' '' @ cleanInput (orEmpty (question qa)) \<and>
           otext (originalQuestions q ! 0) = cleanInput (orEmpty (question qa))"
  using assms
  by (simp add: createMergedQuestion_def Let_def questionOf_def originalsOf_def emoji_in_set)

subsection \<open>The run\<close>

lemma mergeAt_formatted: "mergeAt w pos pair index = Some q \<Longrightarrow> formatted q"
proof -
  assume m: "mergeAt w pos pair index = Some q"
  obtain r calls where c: "createMergedQuestion (mergeCall w pos) (framework1 pair)
      (framework2 pair) (question1 pair) (question2 pair) index (thematicConnection pair)
      = (r, calls)"
    by (cases "createMergedQuestion (mergeCall w pos) (framework1 pair)
      (framework2 pair) (question1 pair) (question2 pair) index (thematicConnection pair)")
  with m have "r = Some q" by (simp add: mergeAt_def)
  with c show ?thesis by (auto intro: createMergedQuestion_formatted)
qed

lemma mergeBatch_from:
  assumes "q \<in> set (mergeBatch w pos batch base)"
  shows "\<exists>p pair index. pair \<in> set batch \<and> mergeAt w p pair index = Some q"
proof -
  from assms obtain i pair where "(i, pair) \<in> set (enumerate 0 batch)"
    and "mergeAt w (pos + i) pair (base + i) = Some q"
    by (auto simp: mergeBatch_def List.map_filter_def)
  moreover then have "pair \<in> set batch" by (auto simp: in_set_enumerate_eq)
  ultimately show ?thesis by blast
qed

lemma batchLoop_from:
  assumes "q \<in> set (batchLoop w count' selected batchStart generated)"
  shows "q \<in> set generated \<or>
         (\<exists>p pair index. pair \<in> set selected \<and> mergeAt w p pair index = Some q)"
  using assms
proof (induction w count' selected batchStart generated rule: batchLoop.induct)
  case (1 w count' selectedPairs batchStart generatedQuestions)
  show ?case
  proof (cases "batchStart < length selectedPairs")
    case False
    with "1.prems" show ?thesis by (simp add: batchLoop.simps [of _ _ selectedPairs batchStart])
  next
    case True
    define batch where "batch = take (min (batchStart + BATCH_SIZE) (length selectedPairs) - batchStart)
        (drop batchStart selectedPairs)"
    define generated where "generated = generatedQuestions
        @ mergeBatch w batchStart batch (length generatedQuestions)"
    have sub: "set batch \<subseteq> set selectedPairs"
      unfolding batch_def by (meson order_trans set_take_subset set_drop_subset)
    have step: "\<And>x. x \<in> set generated \<Longrightarrow> x \<in> set generatedQuestions \<or>
         (\<exists>p pair index. pair \<in> set selectedPairs \<and> mergeAt w p pair index = Some x)"
      unfolding generated_def using sub by (auto dest!: mergeBatch_from)
    show ?thesis
    proof (cases "int (length generated) \<ge> count'")
      case enough: True
      with True "1.prems" have "q \<in> set generated"
        by (simp add: batchLoop.simps [of _ _ selectedPairs batchStart] Let_def
            batch_def generated_def)
      then show ?thesis by (rule step)
    next
      case short: False
      with True "1.prems" have "q \<in> set (batchLoop w count' selectedPairs
          (batchStart + BATCH_SIZE) generated)"
        by (simp add: batchLoop.simps [of _ _ selectedPairs batchStart] Let_def
            batch_def generated_def)
      with "1.IH" [OF True refl refl refl, folded batch_def, folded generated_def] short
      have "q \<in> set generated \<or>
         (\<exists>p pair index. pair \<in> set selectedPairs \<and> mergeAt w p pair index = Some q)"
        by simp
      with step show ?thesis by blast
    qed
  qed
qed

lemma generated_from:
  assumes "q \<in> set (generatedQuestionsOf w count' fws)"
  shows "\<exists>p pair index. pair \<in> set (rankedPairs w fws) \<and> mergeAt w p pair index = Some q"
proof -
  let ?ranked = "rankedPairs w fws"
  let ?g = "batchLoop w count' (selectPairs ?ranked count') 0 []"
  have sel: "set (selectPairs ?ranked count') \<subseteq> set ?ranked"
    by (simp add: selectPairs_def set_jsSlice)
  from assms have "q \<in> set ?g \<or> q \<in> set (additionalQuestions w count' ?ranked ?g)"
    by (simp add: generatedQuestionsOf_def Let_def)
  then show ?thesis
  proof
    assume "q \<in> set ?g"
    from batchLoop_from [OF this] sel show ?thesis by auto
  next
    assume a: "q \<in> set (additionalQuestions w count' ?ranked ?g)"
    have "set (jsSlice (jsSlice ?ranked count' (count' * 2)) 0 (count' - int (length ?g)))
        \<subseteq> set ?ranked"
      by (meson order_trans set_jsSlice)
    with a show ?thesis
      by (auto simp: additionalQuestions_def Let_def split: if_splits dest!: mergeBatch_from)
  qed
qed

lemma generate_result_subset:
  assumes "generateQuestionsFromFrameworks w count' fws = Inr qs"
  shows "set qs \<subseteq> set (generatedQuestionsOf w count' fws)"
  using assms set_jsSlice [of "generatedQuestionsOf w count' fws" 0 count']
  by (auto simp: generateQuestionsFromFrameworks_def Let_def split: if_splits)

text \<open>
  Claim C2, as the code has it. Every merged question that \<open>createMergedQuestion\<close>
  returns, and so every question in the result of a run, has the shape \<open>formatted\<close>:
  emoji of the fixed set and a space first; a question mark or a full stop last on
  the merge path; the cleaned first question unchanged on the short-circuit path.
\<close>

theorem merged_text_format:
  "(createMergedQuestion cw f1 f2 qa qb index theme = (Some q, calls) \<longrightarrow> formatted q) \<and>
   (generateQuestionsFromFrameworks w count' fws = Inr qs \<longrightarrow> (\<forall>x \<in> set qs. formatted x))"
proof (intro conjI impI ballI)
  assume "createMergedQuestion cw f1 f2 qa qb index theme = (Some q, calls)"
  then show "formatted q" by (rule createMergedQuestion_formatted)
next
  fix x
  assume "generateQuestionsFromFrameworks w count' fws = Inr qs" and "x \<in> set qs"
  then have "x \<in> set (generatedQuestionsOf w count' fws)"
    using generate_result_subset by blast
  then obtain p pair index where "mergeAt w p pair index = Some x"
    using generated_from by blast
  then show "formatted x" by (rule mergeAt_formatted)
qed


text \<open>
  Claim C8, as the code has it. When loading the document fails, both loaders return
  the empty value, and the run never fails with the error of a load: neither with
  \<open>DataLoadError\<close> nor with the error of the runtime.
\<close>

theorem load_failure_absorbed:
  "(loadDocument r = Inl e \<longrightarrow>
      getQuestionsForFramework r frameworkName = [] \<and>
      getFrameworkDescription r frameworkName = []) \<and>
   generateQuestionsFromFrameworks w count' fws \<noteq> Inl (DataLoadError status) \<and>
   generateQuestionsFromFrameworks w count' fws \<noteq> Inl RuntimeError"
  by (simp add: getQuestionsForFramework_def getFrameworkDescription_def
      generateQuestionsFromFrameworks_def Let_def)

subsection \<open>Evaluation on the concrete inputs\<close>

lemmas string_defs = js_def isSpace_def isUpper_def isLower_def isDigit_def isLetter_def
  isWordChar_def toLowerChar_def toUpperChar_def toLowerCase_def trim_def startsWith_def
  endsWith_def splitWs_def collapseWs_def

lemma demo_lower:
  "toLowerCase (js ''Describe your climate policy.'') = js ''describe your climate policy.''"
  by (simp add: string_defs)

lemma demo_words:
  "questionWords (js ''describe your climate policy.'') =
     [js ''describe'', js ''climate'', js ''policy'']"
  by (simp add: questionWords_def stripScorePunct_def scorePunct_def stopWords_def string_defs)

lemma demo_newSet:
  "newSet [js ''describe'', js ''climate'', js ''policy''] =
     [js ''describe'', js ''climate'', js ''policy'']"
  by (simp add: newSet_def setAdd_def js_def)

lemma demo_findGroup:
  "findGroup semanticGroups (js ''describe'') = None"
  "findGroup semanticGroups (js ''climate'') = Some ''environmental''"
  "findGroup semanticGroups (js ''policy'') = Some ''process''"
  by (simp_all add: semanticGroups_def js_def)

lemma demo_wordScore:
  "wordScoreOf [js ''describe'', js ''climate'', js ''policy'']
               [js ''describe'', js ''climate'', js ''policy''] = 5"
proof -
  have first: "foldl directMatchStep (0, {}) [js ''describe'', js ''climate'', js ''policy'']
      = (5, {''environmental'', ''process''})"
    by (simp add: directMatchStep_def demo_findGroup insert_commute)
  have second: "foldl (groupMatchStep [js ''describe'', js ''climate'', js ''policy'']
          [js ''describe'', js ''climate'', js ''policy''])
        (5, {''environmental'', ''process''}) semanticGroups
      = (5, {''environmental'', ''process''})"
    by (simp add: groupMatchStep_def hasGroup_def semanticGroups_def js_def)
  have m: "filter (\<lambda>w. w \<in> set [js ''describe'', js ''climate'', js ''policy''])
      [js ''describe'', js ''climate'', js ''policy''] =
      [js ''describe'', js ''climate'', js ''policy'']"
    by simp
  show ?thesis
    unfolding wordScoreOf_def Let_def demo_newSet m first second by simp
qed

lemma demo_structure:
  "structureOf (js ''describe your climate policy.'') = js ''describe your climate''"
  by (simp add: structureOf_def string_defs)

lemma demo_pattern:
  "patternBonus questionPatterns (js ''describe your climate policy.'')
     (js ''describe your climate policy.'') = 0"
  by (simp add: questionPatterns_def hasPattern_def string_defs)

lemma demo_similarity: "calculateQuestionSimilarity demoQuestionG demoQuestionS = 56 / 3"
proof -
  have "similarityScoreOf demoQuestionG demoQuestionS = 56 / 3"
    unfolding similarityScoreOf_def Let_def
    by (simp add: demoQuestionG_def demoQuestionS_def orEmpty_def demo_lower demo_words
        demo_newSet demo_wordScore demo_pattern categoryBonus_def truthy_def)
  then show ?thesis
    by (simp add: calculateQuestionSimilarity_def MIN_SIMILARITY_THRESHOLD_def)
qed

lemma demo_frameworkData:
  "frameworkData demoWorld demoFrameworks =
     [(js ''GRI'', [demoQuestionG], []), (js ''SASB'', [demoQuestionS], [])]"
  by (simp add: frameworkData_def demoWorld_def demoFrameworks_def enumerate_eq_zip
      getQuestionsForFramework_def getFrameworkDescription_def loadDocument_def
      demoDocument_def js_def upt_rec)

lemma demo_theme:
  "findThematicConnection (js ''GRI'') (js ''SASB'') [] [] =
     js ''material sustainability reporting''"
  by (simp add: findThematicConnection_def knownConnection_def knownConnections_def
      sharedKeyword_def defaultThemes_def js_def)

lemma demo_frameworkPairs:
  "frameworkPairs demoFrameworks (frameworkDescriptions (frameworkData demoWorld demoFrameworks))
     = [(js ''GRI'', js ''SASB'', js ''material sustainability reporting'')]"
proof -
  have d: "descriptionIn (frameworkDescriptions (frameworkData demoWorld demoFrameworks)) (js ''GRI'') = []"
     "descriptionIn (frameworkDescriptions (frameworkData demoWorld demoFrameworks)) (js ''SASB'') = []"
    by (simp_all add: demo_frameworkData frameworkDescriptions_def descriptionIn_def js_def)
  have n: "length demoFrameworks = 2" "demoFrameworks ! 0 = js ''GRI''"
    "demoFrameworks ! Suc 0 = js ''SASB''"
    by (simp_all add: demoFrameworks_def)
  have u: "[0 ..< 2] = [0, Suc 0]" "[Suc 0 ..< 2] = [Suc 0]" "[Suc (Suc 0) ..< 2] = []"
    by (simp_all add: numeral_2_eq_2)
  show ?thesis
    by (simp add: frameworkPairs_def n u d demo_theme)
qed

lemma demo_candidatePairs: "candidatePairs demoWorld demoFrameworks = [demoPair]"
proof -
  have q: "questionsIn (allFrameworkQuestions (frameworkData demoWorld demoFrameworks)) (js ''GRI'')
        = [demoQuestionG]"
     "questionsIn (allFrameworkQuestions (frameworkData demoWorld demoFrameworks)) (js ''SASB'')
        = [demoQuestionS]"
    by (simp_all add: demo_frameworkData allFrameworkQuestions_def questionsIn_def js_def)
  show ?thesis
    by (simp add: candidatePairs_concat demo_frameworkPairs pairsOf_def q scoredPair_def
        demo_similarity demoPair_def)
qed

lemma demo_rankedPairs: "rankedPairs demoWorld demoFrameworks = [demoPair]"
  by (simp add: rankedPairs_def sortPairs_def demo_candidatePairs)

lemma demo_cleanInput:
  "cleanInput (js ''Describe your climate policy.'') = js ''Describe your climate policy.''"
  by (simp add: cleanInput_def firstLine_def keepBasic_def basicPunct_def fixLiterals_def
      string_defs)

lemma demo_showNat: "showNat 0 = js ''0''" "showNat (Suc 0) = js ''1''"
  by (simp_all add: showNat.simps [of 0] showNat.simps [of "Suc 0"] js_def)

lemma demo_createMergedQuestion:
  "createMergedQuestion demoCall (js ''GRI'') (js ''SASB'') demoQuestionG demoQuestionS 0
     (js ''material sustainability reporting'') = (Some demoMerged, [])"
proof -
  have t: "cleanInput (orEmpty (question demoQuestionG)) = js ''Describe your climate policy.''"
    "cleanInput (orEmpty (question demoQuestionS)) = js ''Describe your climate policy.''"
    by (simp_all add: demoQuestionG_def demoQuestionS_def orEmpty_def demo_cleanInput)
  have e: "emojis ! (randomIndex demoCall mod 12) = [55356, 57119]"
    by (simp add: demoCall_def emojis_def)
  show ?thesis
    unfolding createMergedQuestion_def Let_def t e
    by (simp add: questionOf_def originalsOf_def demoMerged_def demo_showNat
        demoQuestionG_def demoQuestionS_def orElse_def truthy_def demoCall_def js_def)
qed

lemma demo_generated:
  "generatedQuestionsOf demoWorld 5 demoFrameworks = [demoMerged]"
proof -
  have sel: "selectPairs [demoPair] 5 = [demoPair]"
    by (simp add: selectPairs_def jsSlice_def relIndex_def)
  have m: "mergeBatch demoWorld 0 [demoPair] 0 = [demoMerged]"
    by (simp add: mergeBatch_def mergeAt_def enumerate_eq_zip upt_rec List.map_filter_def
        demoWorld_def demoPair_def demo_createMergedQuestion)
  have b: "batchLoop demoWorld 5 [demoPair] 0 [] = [demoMerged]"
    by (simp add: batchLoop.simps [of _ _ _ 0] batchLoop.simps [of _ _ _ 10]
        BATCH_SIZE_def m Let_def)
  show ?thesis
    by (simp add: generatedQuestionsOf_def Let_def demo_rankedPairs sel b
        additionalQuestions_def)
qed

lemma demo_run:
  "generateQuestionsFromFrameworks demoWorld 5 demoFrameworks = Inr [demoMerged]"
proof -
  have "length demoFrameworks = 2" by (simp add: demoFrameworks_def)
  then show ?thesis
    by (simp add: generateQuestionsFromFrameworks_def demo_generated jsSlice_def
        relIndex_def)
qed

lemmas clean_defs = cleanInput_def cleanOutput_def firstLine_def keepBasic_def basicPunct_def
  fixLiterals_def stripLeadingNonLetters_def stripTrailingSpecial_def normalizeQuestion_def
  stripScorePunct_def scorePunct_def

lemma demo_cleanP: "cleanInput (js ''Why (now)?'') = js ''Why now?''"
  by (simp add: clean_defs string_defs)

lemma demo_cleanL:
  "cleanInput demoTwoLines = js ''Risk''"
  "cleanInput (js ''Risk plan?'') = js ''Risk plan?''"
  by (simp_all add: demoTwoLines_def clean_defs string_defs)

lemma demo_normalizeL:
  "normalizeQuestion demoTwoLines = js ''risk plan?''"
  "normalizeQuestion (js ''Risk plan?'') = js ''risk plan?''"
  "normalizeQuestion (js ''Risk'') = js ''risk''"
  by (simp_all add: demoTwoLines_def clean_defs string_defs)

lemma demo_cleanW: "cleanInput (js ''Report water use.'') = js ''Report water use.''"
  by (simp add: clean_defs string_defs)

lemma demo_normalizeGW:
  "normalizeQuestion (js ''Describe your climate policy.'') = js ''describe your climate policy''"
  "normalizeQuestion (js ''Report water use.'') = js ''report water use''"
  by (simp_all add: clean_defs string_defs)

lemma demo_finishMerged:
  "finishMerged [9889] demoResolved =
     Some ([9889] @ js '' How is climate and water risk managed?'')"
proof -
  have c: "cleanOutput demoResolved = js ''how is climate and water risk managed''"
    by (simp add: demoResolved_def clean_defs string_defs)
  have e: "capitalize (ensureEnding (js ''how is climate and water risk managed'')) =
      js ''How is climate and water risk managed?''"
    by (simp add: ensureEnding_def capitalize_def string_defs)
  show ?thesis
    unfolding finishMerged_def Let_def c e
    by (simp add: formatOk_def firstCodePoint_def inEmojiRange_def string_defs)
qed

lemma demo_createMergedAI:
  "fst (createMergedQuestion demoCallAI (js ''GRI'') (js ''SASB'') demoQuestionG demoQuestionW 0
     (js ''material sustainability reporting'')) = Some demoMergedAI"
proof -
  have t: "cleanInput (orEmpty (question demoQuestionG)) = js ''Describe your climate policy.''"
    "cleanInput (orEmpty (question demoQuestionW)) = js ''Report water use.''"
    by (simp_all add: demoQuestionG_def demoQuestionW_def orEmpty_def demo_cleanInput demo_cleanW)
  have n: "normalizeQuestion (js ''Describe your climate policy.'') \<noteq>
           normalizeQuestion (js ''Report water use.'')"
    unfolding demo_normalizeGW by (simp add: js_def)
  have e: "emojis ! (randomIndex demoCallAI mod 12) = [9889]"
    by (simp add: demoCallAI_def emojis_def)
  have r: "\<And>request. race demoCallAI request = Resolved demoResolved"
    by (simp add: demoCallAI_def)
  have i: "isoNow demoCallAI = js ''2025-01-01T00:00:00.000Z''"
    by (simp add: demoCallAI_def)
  show ?thesis
    unfolding createMergedQuestion_def Let_def t e r i
    apply (simp only: n if_False race_outcome.simps demo_finishMerged option.simps fst_conv)
    apply (simp add: questionOf_def originalsOf_def demoMergedAI_def
        demo_showNat demoQuestionG_def demoQuestionW_def orElse_def truthy_def js_def)
    done
qed

lemma demo_createMergedP:
  "createMergedQuestion demoCall (js ''GRI'') (js ''SASB'') demoQuestionP demoQuestionP 0 [] =
     (Some (questionOf (js ''GRI'') (js ''SASB'') demoQuestionP demoQuestionP 0
        (js ''Why now?'') (js ''Why now?'') ([55356, 57119] @ js '' Why now?'')
        [55356, 57119] (js ''2025-01-01T00:00:00.000Z'') False), [])"
proof -
  have t: "cleanInput (orEmpty (question demoQuestionP)) = js ''Why now?''"
    by (simp add: demoQuestionP_def orEmpty_def demo_cleanP)
  have e: "emojis ! (randomIndex demoCall mod 12) = [55356, 57119]"
    by (simp add: demoCall_def emojis_def)
  show ?thesis
    unfolding createMergedQuestion_def Let_def t e
    by (simp add: demoCall_def js_def)
qed

lemma demo_createMergedL:
  "fst (createMergedQuestion demoCall (js ''GRI'') (js ''SASB'') demoQuestionL1 demoQuestionL2 0 [])
     = None"
  "length (snd (createMergedQuestion demoCall (js ''GRI'') (js ''SASB'')
      demoQuestionL1 demoQuestionL2 0 [])) = 1"
proof -
  have t: "cleanInput (orEmpty (question demoQuestionL1)) = js ''Risk''"
    "cleanInput (orEmpty (question demoQuestionL2)) = js ''Risk plan?''"
    by (simp_all add: demoQuestionL1_def demoQuestionL2_def orEmpty_def demo_cleanL)
  have n: "normalizeQuestion (js ''Risk'') \<noteq> normalizeQuestion (js ''Risk plan?'')"
    unfolding demo_normalizeL by (simp add: js_def)
  have r: "\<And>request. race demoCall request = Timeout"
    by (simp add: demoCall_def)
  show "fst (createMergedQuestion demoCall (js ''GRI'') (js ''SASB'') demoQuestionL1 demoQuestionL2 0 [])
     = None"
    unfolding createMergedQuestion_def Let_def t r by (simp add: n)
  show "length (snd (createMergedQuestion demoCall (js ''GRI'') (js ''SASB'')
      demoQuestionL1 demoQuestionL2 0 [])) = 1"
    unfolding createMergedQuestion_def Let_def t r by (simp add: n)
qed

lemma demoDown_generated: "generatedQuestionsOf demoWorldDown 5 demoFrameworks = []"
proof -
  have fd: "frameworkData demoWorldDown demoFrameworks =
      [(js ''GRI'', [], []), (js ''SASB'', [], [])]"
    by (simp add: frameworkData_def demoWorldDown_def demoFrameworks_def enumerate_eq_zip
        getQuestionsForFramework_def getFrameworkDescription_def loadDocument_def upt_rec)
  have q: "\<And>f. questionsIn (allFrameworkQuestions (frameworkData demoWorldDown demoFrameworks)) f = []"
    by (simp add: fd allFrameworkQuestions_def questionsIn_def)
  have p: "\<And>fp. pairsOf (allFrameworkQuestions (frameworkData demoWorldDown demoFrameworks)) fp = []"
    by (simp add: pairsOf_def q split: prod.splits)
  have c: "candidatePairs demoWorldDown demoFrameworks = []"
    by (simp add: candidatePairs_concat p)
  have b: "batchLoop demoWorldDown 5 [] 0 [] = []"
    by (simp add: batchLoop.simps [of _ _ "[]"])
  show ?thesis
    by (simp add: generatedQuestionsOf_def Let_def rankedPairs_def sortPairs_def c
        selectPairs_def jsSlice_def relIndex_def b additionalQuestions_def)
qed

lemma demoDown_run:
  "generateQuestionsFromFrameworks demoWorldDown 5 demoFrameworks = Inl NoQuestionsGenerated"
proof -
  have "length demoFrameworks = 2" by (simp add: demoFrameworks_def)
  then show ?thesis
    by (simp add: generateQuestionsFromFrameworks_def demoDown_generated)
qed

lemma demo_keywords:
  "extractKeywords (js ''Climate (a), with,'') = [js ''Climate'', js ''a'', js ''with'']"
  by (simp add: extractKeywords_def keepWord_def stripKwPunct_def kwPunct_def kwStopwords_def
      string_defs)

subsection \<open>The claims on the concrete inputs\<close>

theorem too_few_frameworks_counterexample:
  "generateQuestionsFromFrameworks demoWorld 5 [js ''GRI''] = Inr []"
  by (simp add: generateQuestionsFromFrameworks_def)

theorem too_few_frameworks_empty_witness:
  "length ([] :: jsstring list) < 2 \<and> generateQuestionsFromFrameworks demoWorld 5 [] = Inr []"
  using too_few_frameworks_empty [of "[]" demoWorld 5] by simp

theorem merged_text_counterexample:
  "generateQuestionsFromFrameworks demoWorld 5 demoFrameworks = Inr [demoMerged] \<and>
   \<not> endsWith (qtext demoMerged) (js ''?'')"
  by (simp add: demo_run demoMerged_def endsWith_def js_def)

theorem merged_text_format_witness:
  "generateQuestionsFromFrameworks demoWorld 5 demoFrameworks = Inr [demoMerged] \<and>
   formatted demoMerged \<and>
   fst (createMergedQuestion demoCallAI (js ''GRI'') (js ''SASB'') demoQuestionG demoQuestionW 0
     (js ''material sustainability reporting'')) = Some demoMergedAI \<and>
   formatted demoMergedAI"
proof -
  let ?c = "createMergedQuestion demoCallAI (js ''GRI'') (js ''SASB'') demoQuestionG
     demoQuestionW 0 (js ''material sustainability reporting'')"
  have "?c = (Some demoMergedAI, snd ?c)"
    using demo_createMergedAI by (metis prod.collapse)
  with merged_text_format [of demoCallAI "js ''GRI''" "js ''SASB''" demoQuestionG demoQuestionW 0
      "js ''material sustainability reporting''" demoMergedAI "snd ?c"
      demoWorld 5 demoFrameworks "[demoMerged]"] demo_run demo_createMergedAI
  show ?thesis by simp
qed

theorem threshold_gate_witness:
  "demoPair \<in> set (candidatePairs demoWorld demoFrameworks) \<and>
   demoPair \<in> set (selectPairs (rankedPairs demoWorld demoFrameworks) 5) \<and>
   score demoPair = calculateQuestionSimilarity demoQuestionG demoQuestionS \<and>
   10 \<le> score demoPair"
proof -
  have c: "demoPair \<in> set (candidatePairs demoWorld demoFrameworks)"
    by (simp add: demo_candidatePairs)
  have s: "demoPair \<in> set (selectPairs (rankedPairs demoWorld demoFrameworks) 5)"
    by (simp add: demo_rankedPairs selectPairs_def jsSlice_def relIndex_def)
  have e: "score demoPair = calculateQuestionSimilarity demoQuestionG demoQuestionS"
    by (simp add: demo_similarity demoPair_def)
  from threshold_gate [of demoQuestionG demoQuestionS demoWorld demoFrameworks 5] c
  have "10 \<le> score demoPair" by blast
  with c s e show ?thesis by blast
qed


theorem identical_short_circuit_counterexample:
  "map_option qtext (fst (createMergedQuestion demoCall (js ''GRI'') (js ''SASB'')
      demoQuestionP demoQuestionP 0 [])) = Some ([55356, 57119] @ js '' Why now?'') \<and>
   question demoQuestionP = Some (js ''Why (now)?'') \<and>
   [55356, 57119] @ js '' Why now?'' \<noteq> [55356, 57119] @ js '' Why (now)?'' \<and>
   normalizeQuestion (orEmpty (question demoQuestionL1)) =
     normalizeQuestion (orEmpty (question demoQuestionL2)) \<and>
   fst (createMergedQuestion demoCall (js ''GRI'') (js ''SASB'')
      demoQuestionL1 demoQuestionL2 0 []) = None \<and>
   length (snd (createMergedQuestion demoCall (js ''GRI'') (js ''SASB'')
      demoQuestionL1 demoQuestionL2 0 [])) = 1"
proof -
  have "normalizeQuestion (orEmpty (question demoQuestionL1)) =
     normalizeQuestion (orEmpty (question demoQuestionL2))"
    by (simp add: demoQuestionL1_def demoQuestionL2_def orEmpty_def demo_normalizeL)
  moreover have "[55356, 57119] @ js '' Why now?'' \<noteq> [55356, 57119] @ js '' Why (now)?''"
    by (simp add: js_def)
  moreover have "question demoQuestionP = Some (js ''Why (now)?'')"
    by (simp add: demoQuestionP_def)
  ultimately show ?thesis
    by (simp add: demo_createMergedP demo_createMergedL questionOf_def)
qed

theorem identical_short_circuit_witness:
  "normalizeQuestion (cleanInput (orEmpty (question demoQuestionG))) =
     normalizeQuestion (cleanInput (orEmpty (question demoQuestionS))) \<and>
   (\<exists>q. createMergedQuestion demoCall (js ''GRI'') (js ''SASB'') demoQuestionG demoQuestionS 0
          (js ''material sustainability reporting'') = (Some q, []) \<and>
        \<not> generatedWithAI q \<and>
        qtext q = emoji q @ js '' '' @ js ''Describe your climate policy.'')"
proof -
  have t: "cleanInput (orEmpty (question demoQuestionG)) = js ''Describe your climate policy.''"
    "cleanInput (orEmpty (question demoQuestionS)) = js ''Describe your climate policy.''"
    by (simp_all add: demoQuestionG_def demoQuestionS_def orEmpty_def demo_cleanInput)
  then have h: "normalizeQuestion (cleanInput (orEmpty (question demoQuestionG))) =
     normalizeQuestion (cleanInput (orEmpty (question demoQuestionS)))"
    by simp
  from identical_short_circuit [OF h, of demoCall "js ''GRI''" "js ''SASB''" 0
      "js ''material sustainability reporting''" "race demoCall"] h t
  show ?thesis by auto
qed

theorem similarity_symmetric_witness:
  "calculateQuestionSimilarity demoQuestionG demoQuestionS = 56 / 3 \<and>
   calculateQuestionSimilarity demoQuestionS demoQuestionG = 56 / 3"
  using similarity_symmetric [of demoQuestionG demoQuestionS "[]" "[]" "[]" "[]"]
    demo_similarity
  by simp


theorem load_failure_counterexample:
  "fetchDescription demoWorld 0 = FetchRejected \<and>
   generateQuestionsFromFrameworks demoWorld 5 demoFrameworks = Inr [demoMerged] \<and>
   fetchQuestions demoWorldDown 0 = ResponseNotOk 500 \<and>
   generateQuestionsFromFrameworks demoWorldDown 5 demoFrameworks = Inl NoQuestionsGenerated"
proof -
  have "fetchDescription demoWorld 0 = FetchRejected"
    by (simp add: demoWorld_def)
  moreover have "fetchQuestions demoWorldDown 0 = ResponseNotOk 500"
    by (simp add: demoWorldDown_def)
  ultimately show ?thesis by (simp add: demo_run demoDown_run)
qed

theorem load_failure_absorbed_witness:
  "loadDocument (ResponseNotOk 500) = Inl (DataLoadError 500) \<and>
   getQuestionsForFramework (ResponseNotOk 500) (js ''GRI'') = [] \<and>
   getFrameworkDescription (ResponseNotOk 500) (js ''GRI'') = [] \<and>
   generateQuestionsFromFrameworks demoWorldDown 5 demoFrameworks \<noteq> Inl (DataLoadError 500)"
proof -
  have h: "loadDocument (ResponseNotOk 500) = Inl (DataLoadError 500)"
    by (simp add: loadDocument_def)
  from load_failure_absorbed [of "ResponseNotOk 500" "DataLoadError 500" "js ''GRI''"
      demoWorldDown 5 demoFrameworks 500] h
  show ?thesis by simp
qed

theorem extractKeywords_counterexample:
  "extractKeywords (js ''Climate (a), with,'') = [js ''Climate'', js ''a'', js ''with''] \<and>
   toLowerCase (js ''Climate'') \<noteq> js ''Climate'' \<and>
   \<not> length (js ''a'') > 3 \<and>
   js ''with'' \<in> set kwStopwords"
proof -
  have "toLowerCase (js ''Climate'') \<noteq> js ''Climate''"
    by (simp add: toLowerCase_def toLowerChar_def isUpper_def js_def)
  moreover have "\<not> length (js ''a'') > 3" by (simp add: js_def)
  moreover have "js ''with'' \<in> set kwStopwords" by (simp add: kwStopwords_def)
  ultimately show ?thesis using demo_keywords by blast
qed

theorem extractKeywords_tokens_witness:
  "js ''Climate'' \<in> set (extractKeywords (js ''Climate (a), with,'')) \<and>
   js ''Climate'' \<noteq> [] \<and>
   set (js ''Climate'') \<inter> set kwPunct = {} \<and>
   extractKeywords [] = []"
proof -
  have m: "js ''Climate'' \<in> set (extractKeywords (js ''Climate (a), with,''))"
    by (simp add: demo_keywords)
  from extractKeywords_tokens [of "js ''Climate (a), with,''"] m
  have "js ''Climate'' \<noteq> []" and "\<forall>c \<in> set (js ''Climate''). c \<notin> set kwPunct"
    and "extractKeywords [] = []"
    by blast+
  with m show ?thesis by blast
qed

end
